theory Spec2Isabelle
  imports Main
begin

section \<open>Arrays and slices\<close>

text \<open>
  The repository is two Jupyter notebooks. Their only computation on data of their own is
  arithmetic on numpy arrays loaded from files; everything else is calls into external
  libraries. Arrays are one- or two-dimensional lists over an element type \<open>'a\<close> that stands
  for the array's dtype. A Python float literal is kept as it is written, a mantissa and
  a decimal exponent (\<open>8e-5\<close> is \<open>Dec 8 (-5)\<close>, \<open>0.175\<close> is \<open>Dec 175 (-3)\<close>), and the
  product of an array element and a float is a parameter \<open>mul\<close> of the model, so that no
  statement about floating-point rounding is made.
\<close>

datatype pyfloat = Dec int int

datatype 'a ndarray = A1 "'a list" | A2 "'a list list"

text \<open>
  A slice bound \<open>b\<close> on an axis of length \<open>n\<close>: a negative bound counts from the end, and
  every bound is clipped to the axis, as Python does for \<open>a[lo:hi]\<close>.
\<close>

definition norm_bound :: "nat \<Rightarrow> int \<Rightarrow> nat" where
  "norm_bound n b = (if b < 0 then nat (max 0 (int n + b)) else min (nat b) n)"

definition slice_lo :: "nat \<Rightarrow> int option \<Rightarrow> nat" where
  "slice_lo n lo = (case lo of None \<Rightarrow> 0 | Some b \<Rightarrow> norm_bound n b)"

definition slice_hi :: "nat \<Rightarrow> int option \<Rightarrow> nat" where
  "slice_hi n hi = (case hi of None \<Rightarrow> n | Some b \<Rightarrow> norm_bound n b)"

text \<open>The positions \<open>i\<close> of an axis of length \<open>n\<close> that the slice \<open>lo:hi\<close> selects.\<close>

definition in_slice :: "nat \<Rightarrow> int option \<times> int option \<Rightarrow> nat \<Rightarrow> bool" where
  "in_slice n sl i = (slice_lo n (fst sl) \<le> i \<and> i < slice_hi n (snd sl))"

definition take_slice :: "int option \<times> int option \<Rightarrow> 'b list \<Rightarrow> 'b list" where
  "take_slice sl xs =
     drop (slice_lo (length xs) (fst sl)) (take (slice_hi (length xs) (snd sl)) xs)"

definition map_at :: "(nat \<Rightarrow> bool) \<Rightarrow> ('b \<Rightarrow> 'b) \<Rightarrow> 'b list \<Rightarrow> 'b list" where
  "map_at sel f xs = map (\<lambda>(i, x). if sel i then f x else x) (enumerate 0 xs)"

text \<open>
  \<open>m[rows, cols] *= b\<close> on a two-dimensional array: the entries of the selected block are
  multiplied, every other entry stays.
\<close>

definition imul_block ::
  "('a \<Rightarrow> pyfloat \<Rightarrow> 'a) \<Rightarrow> int option \<times> int option \<Rightarrow> int option \<times> int option \<Rightarrow>
     pyfloat \<Rightarrow> 'a list list \<Rightarrow> 'a list list" where
  "imul_block mul rows cols b m =
     map_at (in_slice (length m) rows)
       (\<lambda>row. map_at (in_slice (length row) cols) (\<lambda>x. mul x b) row) m"

text \<open>\<open>a * b\<close> for an array \<open>a\<close> and a float \<open>b\<close>: a new array, every entry multiplied.\<close>

fun amul :: "('a \<Rightarrow> pyfloat \<Rightarrow> 'a) \<Rightarrow> 'a ndarray \<Rightarrow> pyfloat \<Rightarrow> 'a ndarray" where
  "amul mul (A1 xs) b = A1 (map (\<lambda>x. mul x b) xs)"
| "amul mul (A2 m) b = A2 (map (map (\<lambda>x. mul x b)) m)"

lemma length_map_at: "length (map_at sel f xs) = length xs"
  by (simp add: map_at_def)

lemma nth_map_at:
  "i < length xs \<Longrightarrow> map_at sel f xs ! i = (if sel i then f (xs ! i) else xs ! i)"
  by (simp add: map_at_def nth_enumerate_eq)

lemma length_imul_block: "length (imul_block mul rows cols b m) = length m"
  by (simp add: imul_block_def length_map_at)

lemma length_nth_imul_block:
  "i < length m \<Longrightarrow> length (imul_block mul rows cols b m ! i) = length (m ! i)"
  by (simp add: imul_block_def nth_map_at length_map_at)

lemma nth_imul_block:
  "i < length m \<Longrightarrow> j < length (m ! i) \<Longrightarrow>
     imul_block mul rows cols b m ! i ! j =
       (if in_slice (length m) rows i \<and> in_slice (length (m ! i)) cols j
        then mul (m ! i ! j) b else m ! i ! j)"
  by (simp add: imul_block_def nth_map_at)

section \<open>Values, state and the outside world\<close>

text \<open>
  A value of the notebook's namespace. An array is a reference \<open>VRef\<close> into the store, so
  that an in-place update is seen through every name bound to the array; \<open>VArr\<close> is the
  content of an array at one moment (a snapshot, in the trace). \<open>VGlobal\<close> is an imported
  module, class, function or datum, by its qualified name, and \<open>VObj k\<close> is the object that
  the event number \<open>k\<close> of the trace (from 0), a call into a library, returned. \<open>VAttr v a\<close> is the
  attribute \<open>a\<close> of \<open>v\<close>, and \<open>VOp\<close> is the result of an operator or a pure builtin on
  values the model does not look into.
\<close>

datatype 'a val =
    VInt int
  | VFloat pyfloat
  | VStr string
  | VBool bool
  | VNone
  | VList "'a val list"
  | VTuple "'a val list"
  | VDict "(string \<times> 'a val) list"
  | VRef nat
  | VArr "'a ndarray"
  | VGlobal string
  | VAttr "'a val" string
  | VObj nat
  | VOp string "'a val list"

datatype err =
    NameError string
  | FileNotFoundError string
  | TypeError string
  | ValueError string
  | IndexError string
  | NotModelled string

text \<open>
  What the notebook does to the world outside its namespace, in order: imports, IPython
  magics, calls into libraries (callee, positional and keyword arguments) and stores into
  attributes and items of library objects. Arrays appear by content.
\<close>

datatype 'a event =
    EImport string
  | EMagic string
  | ECall "'a val" "'a val list" "(string \<times> 'a val) list"
  | ESetAttr "'a val" string "'a val"
  | ESetItem "'a val" "'a val list" "'a val"

text \<open>
  The state of a run: the namespace (the latest binding of a name first), the store of
  the arrays, and the events so far, the latest first, with their number.
\<close>

record 'a state =
  env :: "(string \<times> 'a val) list"
  heap :: "'a ndarray list"
  events :: "'a event list"
  count :: nat

definition trace :: "'a state \<Rightarrow> 'a event list" where
  "trace st = rev (events st)"

datatype 'a diskfile = NpyFile "'a ndarray" | OtherFile

text \<open>
  What the notebook cannot decide by itself: the files on disk, the arithmetic of the
  arrays' dtype, the elements an external iterable yields and the truth value of an
  external object.
\<close>

record 'a world =
  w_files :: "string \<Rightarrow> 'a diskfile option"
  w_mul :: "'a \<Rightarrow> pyfloat \<Rightarrow> 'a"
  w_zero :: 'a
  w_items :: "'a val \<Rightarrow> 'a val list"
  w_truth :: "'a val \<Rightarrow> bool"

definition init_state :: "'a state" where
  "init_state = \<lparr>env = [], heap = [], events = [], count = 0\<rparr>"

primrec snap :: "'a ndarray list \<Rightarrow> 'a val \<Rightarrow> 'a val" where
  "snap h (VInt i) = VInt i"
| "snap h (VFloat f) = VFloat f"
| "snap h (VStr s) = VStr s"
| "snap h (VBool b) = VBool b"
| "snap h VNone = VNone"
| "snap h (VList vs) = VList (map (snap h) vs)"
| "snap h (VTuple vs) = VTuple (map (snap h) vs)"
| "snap h (VDict kvs) = VDict (map (map_prod id (snap h)) kvs)"
| "snap h (VRef a) = (if a < length h then VArr (h ! a) else VRef a)"
| "snap h (VArr c) = VArr c"
| "snap h (VGlobal g) = VGlobal g"
| "snap h (VAttr v a) = VAttr (snap h v) a"
| "snap h (VObj k) = VObj k"
| "snap h (VOp f vs) = VOp f (map (snap h) vs)"

definition emit :: "'a event \<Rightarrow> 'a state \<Rightarrow> 'a state" where
  "emit e st = st\<lparr>events := e # events st, count := count st + 1\<rparr>"

definition alloc :: "'a ndarray \<Rightarrow> 'a state \<Rightarrow> (err + 'a val) \<times> 'a state" where
  "alloc c st = (Inr (VRef (length (heap st))), st\<lparr>heap := heap st @ [c]\<rparr>)"

definition bind_name :: "string \<Rightarrow> 'a val \<Rightarrow> 'a state \<Rightarrow> 'a state" where
  "bind_name x v st = st\<lparr>env := (x, v) # env st\<rparr>"

text \<open>
  The builtins the notebooks call. A name is looked up in the notebook's namespace first
  and among the builtins next; any other name raises NameError.
\<close>

definition pure_builtins :: "string list" where
  "pure_builtins = [''dict'', ''list'', ''abs'', ''enumerate'', ''zip'']"

definition builtins :: "string list" where
  "builtins = ''print'' # pure_builtins"

definition lookup :: "string \<Rightarrow> 'a state \<Rightarrow> err + 'a val" where
  "lookup x st =
     (case map_of (env st) x of
        Some v \<Rightarrow> Inr v
      | None \<Rightarrow> if x \<in> set builtins then Inr (VGlobal (''builtins.'' @ x))
                else Inl (NameError x))"

section \<open>The notebooks' Python\<close>

text \<open>
  The statements and expressions that the notebooks' code cells are written in. A cell is
  a list of statements; a comment (also commented-out code) is no statement.
\<close>

datatype binop = Add | Sub | Mul | IsOp | InOp

datatype expr =
    IntC int
  | FloatC pyfloat
  | StrC string
  | BoolC bool
  | NoneC
  | Name string
  | Attr expr string
  | Call expr "arg list"
  | TupleE "expr list"
  | ListE "expr list"
  | DictE "(string \<times> expr) list"
  | BinOp expr binop expr
  | Subscript expr "index list"
and arg = Pos expr | Kw string expr | KwSplat expr
and index = Idx expr | Slice "expr option" "expr option"

datatype target = TName string | TTuple "target list"

datatype stmt =
    Import string string
  | ImportFrom string "(string \<times> string) list"
  | Magic string
  | Assign target expr
  | AssignAttr expr string expr
  | AssignItem expr "index list" expr
  | AugAssign string binop expr
  | AugAssignItem expr "index list" binop expr
  | ExprS expr
  | IfS expr "stmt list" "stmt list"
  | ForS target expr "stmt list"

type_synonym cell = "stmt list"

datatype 'a ival = IIdx "'a val" | ISlice "'a val option" "'a val option"

subsection \<open>Operations on values\<close>

text \<open>The bounds of a slice, when each is an integer or absent.\<close>

fun int_bound :: "'a val option \<Rightarrow> int option option" where
  "int_bound None = Some None"
| "int_bound (Some (VInt i)) = Some (Some i)"
| "int_bound (Some _) = None"

fun int_slice :: "'a ival \<Rightarrow> (int option \<times> int option) option" where
  "int_slice (ISlice lo hi) =
     (case (int_bound lo, int_bound hi) of
        (Some l, Some h) \<Rightarrow> Some (l, h)
      | _ \<Rightarrow> None)"
| "int_slice (IIdx _) = None"

fun ival_val :: "'a ival \<Rightarrow> 'a val" where
  "ival_val (IIdx v) = v"
| "ival_val (ISlice lo hi) =
     VOp ''slice'' [case lo of None \<Rightarrow> VNone | Some v \<Rightarrow> v,
                    case hi of None \<Rightarrow> VNone | Some v \<Rightarrow> v]"

definition binop_name :: "binop \<Rightarrow> string" where
  "binop_name op = (case op of Add \<Rightarrow> ''+'' | Sub \<Rightarrow> ''-'' | Mul \<Rightarrow> ''*''
                     | IsOp \<Rightarrow> ''is'' | InOp \<Rightarrow> ''in'')"

text \<open>
  A binary operator. Integers are computed, two lists are concatenated, an array times a
  float is a new array; on anything else the result is kept symbolic.
\<close>

definition binop ::
  "'a world \<Rightarrow> binop \<Rightarrow> 'a val \<Rightarrow> 'a val \<Rightarrow> 'a state \<Rightarrow> (err + 'a val) \<times> 'a state" where
  "binop W op l r st =
     (case (op, l, r) of
        (Add, VInt a, VInt b) \<Rightarrow> (Inr (VInt (a + b)), st)
      | (Sub, VInt a, VInt b) \<Rightarrow> (Inr (VInt (a - b)), st)
      | (Mul, VInt a, VInt b) \<Rightarrow> (Inr (VInt (a * b)), st)
      | (Add, VList xs, VList ys) \<Rightarrow> (Inr (VList (xs @ ys)), st)
      | (Mul, VRef a, VFloat b) \<Rightarrow>
          (if a < length (heap st) then alloc (amul (w_mul W) (heap st ! a) b) st
           else (Inl (NotModelled ''dangling array reference''), st))
      | _ \<Rightarrow> (Inr (VOp (binop_name op) [snap (heap st) l, snap (heap st) r]), st))"

text \<open>
  \<open>v[idx]\<close>. Basic slices of an array are computed (the model copies where numpy gives a
  view; the notebooks never write through a slice they have read). An array of one
  dimension indexed with two raises IndexError. Anything else is kept symbolic.
\<close>

definition subscript ::
  "'a val \<Rightarrow> 'a ival list \<Rightarrow> 'a state \<Rightarrow> (err + 'a val) \<times> 'a state" where
  "subscript v idx st =
     (let sym = (Inr (VOp ''[]'' (snap (heap st) v # map (snap (heap st) \<circ> ival_val) idx)), st) in
      case v of
        VRef a \<Rightarrow>
          (if a < length (heap st) then
             (case (heap st ! a, map int_slice idx) of
                (A2 m, [Some rs, Some cs]) \<Rightarrow> alloc (A2 (map (take_slice cs) (take_slice rs m))) st
              | (A2 m, [Some rs]) \<Rightarrow> alloc (A2 (take_slice rs m)) st
              | (A1 xs, [Some s]) \<Rightarrow> alloc (A1 (take_slice s xs)) st
              | (A1 xs, _ # _ # _) \<Rightarrow> (Inl (IndexError ''too many indices for array''), st)
              | _ \<Rightarrow> sym)
           else sym)
      | _ \<Rightarrow> sym)"

text \<open>
  \<open>v[idx] op= r\<close>. A block of a two-dimensional array times a float is updated in place,
  in the store; the model has no other in-place update of an array. On a library object
  it is a store into the object.
\<close>

definition aug_item ::
  "'a world \<Rightarrow> 'a val \<Rightarrow> 'a ival list \<Rightarrow> binop \<Rightarrow> 'a val \<Rightarrow> 'a state \<Rightarrow> err option \<times> 'a state" where
  "aug_item W v idx op r st =
     (case v of
        VRef a \<Rightarrow>
          (if a < length (heap st) then
             (case (heap st ! a, map int_slice idx, op, r) of
                (A2 m, [Some rs, Some cs], Mul, VFloat b) \<Rightarrow>
                   (None, st\<lparr>heap := (heap st)[a := A2 (imul_block (w_mul W) rs cs b m)]\<rparr>)
              | (A1 xs, _ # _ # _, _, _) \<Rightarrow> (Some (IndexError ''too many indices for array''), st)
              | _ \<Rightarrow> (Some (NotModelled ''in-place update of an array''), st))
           else (Some (NotModelled ''dangling array reference''), st))
      | _ \<Rightarrow>
          (None, emit (ESetItem (snap (heap st) v) (map (snap (heap st) \<circ> ival_val) idx)
                   (VOp (binop_name op) [VOp ''[]'' (snap (heap st) v # map (snap (heap st) \<circ> ival_val) idx),
                                         snap (heap st) r])) st))"

text \<open>\<open>v[idx] = r\<close>: a store into a library object; the model has no store into an array.\<close>

definition set_item ::
  "'a val \<Rightarrow> 'a ival list \<Rightarrow> 'a val \<Rightarrow> 'a state \<Rightarrow> err option \<times> 'a state" where
  "set_item v idx r st =
     (case v of
        VRef a \<Rightarrow> (Some (NotModelled ''store into an array''), st)
      | _ \<Rightarrow> (None, emit (ESetItem (snap (heap st) v) (map (snap (heap st) \<circ> ival_val) idx)
                          (snap (heap st) r)) st))"

definition zero_rows :: "'a \<Rightarrow> int \<Rightarrow> int \<Rightarrow> 'a list list" where
  "zero_rows z r c = replicate (nat r) (replicate (nat c) z)"

definition np_zeros :: "'a \<Rightarrow> int \<Rightarrow> int \<Rightarrow> 'a ndarray" where
  "np_zeros z r c = A2 (zero_rows z r c)"

lemma length_zero_rows: "length (zero_rows z r c) = nat r"
  by (simp add: zero_rows_def)

text \<open>
  A call. The pure builtins give a symbolic result. Every other call is an event of the
  trace; \<open>np.load\<close>, \<open>np.zeros\<close>, \<open>np.hstack\<close> and \<open>copy\<close> of an array give an array, and
  any other callee gives the object of that event.
\<close>

definition np_load ::
  "'a world \<Rightarrow> 'a val list \<Rightarrow> (string \<times> 'a val) list \<Rightarrow> (err + 'a val) \<times> 'a state \<Rightarrow>
     (err + 'a val) \<times> 'a state" where
  "np_load W pos kws obj =
     (case (pos, kws) of
        ([VStr p], []) \<Rightarrow>
          (case w_files W p of
             None \<Rightarrow> (Inl (FileNotFoundError p), snd obj)
           | Some (NpyFile c) \<Rightarrow> alloc c (snd obj)
           | Some OtherFile \<Rightarrow> obj)
      | _ \<Rightarrow> obj)"

definition np_zeros_call ::
  "'a world \<Rightarrow> 'a val list \<Rightarrow> (string \<times> 'a val) list \<Rightarrow> (err + 'a val) \<times> 'a state \<Rightarrow>
     (err + 'a val) \<times> 'a state" where
  "np_zeros_call W pos kws obj =
     (case (pos, kws) of
        ([VTuple [VInt r, VInt c]], []) \<Rightarrow>
          (if r < 0 \<or> c < 0 then (Inl (ValueError ''negative dimensions are not allowed''), snd obj)
           else alloc (np_zeros (w_zero W) r c) (snd obj))
      | _ \<Rightarrow> obj)"

definition np_hstack ::
  "'a val list \<Rightarrow> (string \<times> 'a val) list \<Rightarrow> (err + 'a val) \<times> 'a state \<Rightarrow>
     (err + 'a val) \<times> 'a state" where
  "np_hstack pos kws obj =
     (case (pos, kws) of
        ([VTuple [VArr (A2 m1), VArr (A2 m2)]], []) \<Rightarrow>
          (if length m1 = length m2 then alloc (A2 (map2 (@) m1 m2)) (snd obj)
           else (Inl (ValueError ''all the input array dimensions except for the concatenation axis must match exactly''), snd obj))
      | _ \<Rightarrow> obj)"

definition ext_call ::
  "'a val \<Rightarrow> 'a val list \<Rightarrow> (string \<times> 'a val) list \<Rightarrow> 'a state \<Rightarrow> (err + 'a val) \<times> 'a state" where
  "ext_call f pos kws st =
     (Inr (VObj (count st)),
      emit (ECall (snap (heap st) f) (map (snap (heap st)) pos)
              (map (map_prod id (snap (heap st))) kws)) st)"

definition call ::
  "'a world \<Rightarrow> 'a val \<Rightarrow> 'a val list \<Rightarrow> (string \<times> 'a val) list \<Rightarrow> 'a state \<Rightarrow>
     (err + 'a val) \<times> 'a state" where
  "call W f pos kws st =
     (case f of
        VGlobal g \<Rightarrow>
          if g \<in> set (map ((@) ''builtins.'') pure_builtins)
          then (Inr (VOp ''call'' (f # map (snap (heap st)) pos)), st)
          else ext_call f pos kws st
      | VAttr (VGlobal g) m \<Rightarrow>
          if g = ''numpy'' \<and> m = ''load'' then np_load W pos kws (ext_call f pos kws st)
          else if g = ''numpy'' \<and> m = ''zeros'' then np_zeros_call W pos kws (ext_call f pos kws st)
          else if g = ''numpy'' \<and> m = ''hstack''
            then np_hstack (map (snap (heap st)) pos) kws (ext_call f pos kws st)
          else ext_call f pos kws st
      | VAttr (VRef a) m \<Rightarrow>
          (case (pos, kws) of
             ([], []) \<Rightarrow>
               if m = ''copy'' \<and> a < length (heap st)
               then alloc (heap st ! a) (snd (ext_call f pos kws st))
               else ext_call f pos kws st
           | _ \<Rightarrow> ext_call f pos kws st)
      | _ \<Rightarrow> ext_call f pos kws st)"

subsection \<open>Evaluation\<close>

text \<open>
  An evaluation returns an error or a value, and the state in both cases: what a statement
  did before it raised stays done. \<open>bnd\<close> sequences two evaluations and stops at an error.
\<close>

definition bnd ::
  "(err + 'r) \<times> 'a state \<Rightarrow> ('r \<Rightarrow> 'a state \<Rightarrow> (err + 'q) \<times> 'a state) \<Rightarrow> (err + 'q) \<times> 'a state" where
  "bnd m f = (case m of (Inl e, st) \<Rightarrow> (Inl e, st) | (Inr v, st) \<Rightarrow> f v st)"

lemma bnd_Inl: "bnd (Inl e, st) f = (Inl e, st)"
  by (simp add: bnd_def)

lemma bnd_Inr: "bnd (Inr v, st) f = f v st"
  by (simp add: bnd_def)

lemma bnd_cong [fundef_cong]:
  "m = m' \<Longrightarrow> (\<And>v st. m' = (Inr v, st) \<Longrightarrow> f v st = f' v st) \<Longrightarrow> bnd m f = bnd m' f'"
  by (auto simp: bnd_def split: prod.splits sum.splits)

text \<open>
  Python's order: the callee, then the arguments from left to right, then the call; the
  operands of an operator from left to right; the subscripted value, then the indices.
  \<open>**d\<close> passes the items of a dictionary as keyword arguments.
\<close>

fun eval :: "'a world \<Rightarrow> expr \<Rightarrow> 'a state \<Rightarrow> (err + 'a val) \<times> 'a state"
and eval_list :: "'a world \<Rightarrow> expr list \<Rightarrow> 'a state \<Rightarrow> (err + 'a val list) \<times> 'a state"
and eval_items :: "'a world \<Rightarrow> (string \<times> expr) list \<Rightarrow> 'a state \<Rightarrow> (err + (string \<times> 'a val) list) \<times> 'a state"
and eval_args :: "'a world \<Rightarrow> arg list \<Rightarrow> 'a state \<Rightarrow> (err + 'a val list \<times> (string \<times> 'a val) list) \<times> 'a state"
and eval_opt :: "'a world \<Rightarrow> expr option \<Rightarrow> 'a state \<Rightarrow> (err + 'a val option) \<times> 'a state"
and eval_indices :: "'a world \<Rightarrow> index list \<Rightarrow> 'a state \<Rightarrow> (err + 'a ival list) \<times> 'a state"
where
  "eval W (IntC i) st = (Inr (VInt i), st)"
| "eval W (FloatC f) st = (Inr (VFloat f), st)"
| "eval W (StrC s) st = (Inr (VStr s), st)"
| "eval W (BoolC b) st = (Inr (VBool b), st)"
| "eval W NoneC st = (Inr VNone, st)"
| "eval W (Name x) st = (lookup x st, st)"
| "eval W (Attr e a) st = bnd (eval W e st) (\<lambda>v st. (Inr (VAttr v a), st))"
| "eval W (Call f args) st =
     bnd (eval W f st) (\<lambda>fv st.
     bnd (eval_args W args st) (\<lambda>(pos, kws) st.
     call W fv pos kws st))"
| "eval W (TupleE es) st = bnd (eval_list W es st) (\<lambda>vs st. (Inr (VTuple vs), st))"
| "eval W (ListE es) st = bnd (eval_list W es st) (\<lambda>vs st. (Inr (VList vs), st))"
| "eval W (DictE kes) st = bnd (eval_items W kes st) (\<lambda>kvs st. (Inr (VDict kvs), st))"
| "eval W (BinOp l op r) st =
     bnd (eval W l st) (\<lambda>lv st.
     bnd (eval W r st) (\<lambda>rv st.
     binop W op lv rv st))"
| "eval W (Subscript e idx) st =
     bnd (eval W e st) (\<lambda>v st.
     bnd (eval_indices W idx st) (\<lambda>ivs st.
     subscript v ivs st))"
| "eval_list W [] st = (Inr [], st)"
| "eval_list W (e # es) st =
     bnd (eval W e st) (\<lambda>v st.
     bnd (eval_list W es st) (\<lambda>vs st. (Inr (v # vs), st)))"
| "eval_items W [] st = (Inr [], st)"
| "eval_items W ((k, e) # kes) st =
     bnd (eval W e st) (\<lambda>v st.
     bnd (eval_items W kes st) (\<lambda>kvs st. (Inr ((k, v) # kvs), st)))"
| "eval_args W [] st = (Inr ([], []), st)"
| "eval_args W (Pos e # as) st =
     bnd (eval W e st) (\<lambda>v st.
     bnd (eval_args W as st) (\<lambda>(pos, kws) st. (Inr (v # pos, kws), st)))"
| "eval_args W (Kw k e # as) st =
     bnd (eval W e st) (\<lambda>v st.
     bnd (eval_args W as st) (\<lambda>(pos, kws) st. (Inr (pos, (k, v) # kws), st)))"
| "eval_args W (KwSplat e # as) st =
     bnd (eval W e st) (\<lambda>v st.
     bnd (eval_args W as st) (\<lambda>(pos, kws) st.
       (Inr (pos, (case v of VDict kvs \<Rightarrow> kvs | _ \<Rightarrow> [(''**'', v)]) @ kws), st)))"
| "eval_opt W None st = (Inr None, st)"
| "eval_opt W (Some e) st = bnd (eval W e st) (\<lambda>v st. (Inr (Some v), st))"
| "eval_indices W [] st = (Inr [], st)"
| "eval_indices W (Idx e # is) st =
     bnd (eval W e st) (\<lambda>v st.
     bnd (eval_indices W is st) (\<lambda>ivs st. (Inr (IIdx v # ivs), st)))"
| "eval_indices W (Slice lo hi # is) st =
     bnd (eval_opt W lo st) (\<lambda>l st.
     bnd (eval_opt W hi st) (\<lambda>h st.
     bnd (eval_indices W is st) (\<lambda>ivs st. (Inr (ISlice l h # ivs), st))))"

subsection \<open>Execution\<close>

text \<open>
  The elements of an iterable, for a \<open>for\<close> loop and for unpacking into a tuple of
  targets: a list, tuple or dictionary of the notebook gives its own, a number is not
  iterable, and a library object gives what the world says.
\<close>

definition iter_items :: "'a world \<Rightarrow> 'a val \<Rightarrow> err + 'a val list" where
  "iter_items W v =
     (case v of
        VList vs \<Rightarrow> Inr vs
      | VTuple vs \<Rightarrow> Inr vs
      | VDict kvs \<Rightarrow> Inr (map (VStr \<circ> fst) kvs)
      | VInt _ \<Rightarrow> Inl (TypeError ''object is not iterable'')
      | VFloat _ \<Rightarrow> Inl (TypeError ''object is not iterable'')
      | VBool _ \<Rightarrow> Inl (TypeError ''object is not iterable'')
      | VNone \<Rightarrow> Inl (TypeError ''object is not iterable'')
      | _ \<Rightarrow> Inr (w_items W v))"

definition truthy :: "'a world \<Rightarrow> 'a val \<Rightarrow> bool" where
  "truthy W v =
     (case v of
        VBool b \<Rightarrow> b
      | VNone \<Rightarrow> False
      | VInt i \<Rightarrow> i \<noteq> 0
      | VStr s \<Rightarrow> s \<noteq> []
      | VList vs \<Rightarrow> 0 < length vs
      | VTuple vs \<Rightarrow> 0 < length vs
      | VDict kvs \<Rightarrow> 0 < length kvs
      | _ \<Rightarrow> w_truth W v)"

definition bnd_s ::
  "(err + 'r) \<times> 'a state \<Rightarrow> ('r \<Rightarrow> 'a state \<Rightarrow> err option \<times> 'a state) \<Rightarrow> err option \<times> 'a state" where
  "bnd_s m f = (case m of (Inl e, st) \<Rightarrow> (Some e, st) | (Inr v, st) \<Rightarrow> f v st)"

definition thn ::
  "err option \<times> 'a state \<Rightarrow> ('a state \<Rightarrow> err option \<times> 'a state) \<Rightarrow> err option \<times> 'a state" where
  "thn m f = (case m of (Some e, st) \<Rightarrow> (Some e, st) | (None, st) \<Rightarrow> f st)"

lemma bnd_s_Inl: "bnd_s (Inl e, st) f = (Some e, st)"
  by (simp add: bnd_s_def)

lemma bnd_s_Inr: "bnd_s (Inr v, st) f = f v st"
  by (simp add: bnd_s_def)

lemma thn_Some: "thn (Some e, st) f = (Some e, st)"
  by (simp add: thn_def)

lemma thn_None: "thn (None, st) f = f st"
  by (simp add: thn_def)

lemma bnd_s_cong [fundef_cong]:
  "m = m' \<Longrightarrow> (\<And>v st. m' = (Inr v, st) \<Longrightarrow> f v st = f' v st) \<Longrightarrow> bnd_s m f = bnd_s m' f'"
  by (auto simp: bnd_s_def split: prod.splits sum.splits)

lemma thn_cong [fundef_cong]:
  "m = m' \<Longrightarrow> (\<And>st. m' = (None, st) \<Longrightarrow> f st = f' st) \<Longrightarrow> thn m f = thn m' f'"
  by (auto simp: thn_def split: prod.splits option.splits)

text \<open>Binding a value to a target; a tuple of targets unpacks the value.\<close>

fun bind_target :: "'a world \<Rightarrow> target \<Rightarrow> 'a val \<Rightarrow> 'a state \<Rightarrow> err option \<times> 'a state"
and bind_targets :: "'a world \<Rightarrow> target list \<Rightarrow> 'a val list \<Rightarrow> 'a state \<Rightarrow> err option \<times> 'a state"
where
  "bind_target W (TName x) v st = (None, bind_name x v st)"
| "bind_target W (TTuple ts) v st =
     (case iter_items W v of
        Inl e \<Rightarrow> (Some e, st)
      | Inr vs \<Rightarrow>
          if length vs = length ts then bind_targets W ts vs st
          else (Some (ValueError ''wrong number of values to unpack''), st))"
| "bind_targets W [] vs st = (None, st)"
| "bind_targets W (t # ts) vs st =
     thn (bind_target W t (hd vs) st) (\<lambda>st. bind_targets W ts (tl vs) st)"

text \<open>
  A statement. An assignment evaluates its right-hand side first and the object of an
  attribute or item target after it; an augmented assignment reads its target first.
\<close>

fun exec :: "'a world \<Rightarrow> stmt \<Rightarrow> 'a state \<Rightarrow> err option \<times> 'a state"
and exec_block :: "'a world \<Rightarrow> stmt list \<Rightarrow> 'a state \<Rightarrow> err option \<times> 'a state"
and exec_loop :: "'a world \<Rightarrow> target \<Rightarrow> stmt list \<Rightarrow> 'a val list \<Rightarrow> 'a state \<Rightarrow> err option \<times> 'a state"
where
  "exec W (Import m x) st = (None, bind_name x (VGlobal m) (emit (EImport m) st))"
| "exec W (ImportFrom m xs) st =
     (None, fold (\<lambda>(n, x). bind_name x (VGlobal (m @ ''.'' @ n))) xs (emit (EImport m) st))"
| "exec W (Magic s) st = (None, emit (EMagic s) st)"
| "exec W (Assign t e) st = bnd_s (eval W e st) (\<lambda>v st. bind_target W t v st)"
| "exec W (AssignAttr obj a e) st =
     bnd_s (eval W e st) (\<lambda>v st.
     bnd_s (eval W obj st) (\<lambda>ov st.
     (None, emit (ESetAttr (snap (heap st) ov) a (snap (heap st) v)) st)))"
| "exec W (AssignItem obj idx e) st =
     bnd_s (eval W e st) (\<lambda>v st.
     bnd_s (eval W obj st) (\<lambda>ov st.
     bnd_s (eval_indices W idx st) (\<lambda>ivs st.
     set_item ov ivs v st)))"
| "exec W (AugAssign x op e) st =
     bnd_s (lookup x st, st) (\<lambda>xv st.
     bnd_s (eval W e st) (\<lambda>v st.
     bnd_s (binop W op xv v st) (\<lambda>r st.
     (None, bind_name x r st))))"
| "exec W (AugAssignItem obj idx op e) st =
     bnd_s (eval W obj st) (\<lambda>ov st.
     bnd_s (eval_indices W idx st) (\<lambda>ivs st.
     bnd_s (eval W e st) (\<lambda>v st.
     aug_item W ov ivs op v st)))"
| "exec W (ExprS e) st = bnd_s (eval W e st) (\<lambda>v st. (None, st))"
| "exec W (IfS c yes no) st =
     bnd_s (eval W c st) (\<lambda>v st.
     if truthy W v then exec_block W yes st else exec_block W no st)"
| "exec W (ForS t e body) st =
     bnd_s (eval W e st) (\<lambda>v st.
     case iter_items W v of
       Inl er \<Rightarrow> (Some er, st)
     | Inr vs \<Rightarrow> exec_loop W t body vs st)"
| "exec_block W [] st = (None, st)"
| "exec_block W (s # ss) st = thn (exec W s st) (\<lambda>st. exec_block W ss st)"
| "exec_loop W t body [] st = (None, st)"
| "exec_loop W t body (v # vs) st =
     thn (bind_target W t v st) (\<lambda>st.
     thn (exec_block W body st) (\<lambda>st.
     exec_loop W t body vs st))"

text \<open>
  Running the cells of a notebook from top to bottom. \<open>run_all\<close> stops at the first cell
  that raises, as "Run All" does. \<open>run_each\<close> goes on with the next cell, as a reader does
  who runs the cells one by one, and returns what each cell raised.
\<close>

fun run_all :: "'a world \<Rightarrow> cell list \<Rightarrow> 'a state \<Rightarrow> err option \<times> 'a state" where
  "run_all W [] st = (None, st)"
| "run_all W (c # cs) st = thn (exec_block W c st) (\<lambda>st. run_all W cs st)"

fun run_each :: "'a world \<Rightarrow> cell list \<Rightarrow> 'a state \<Rightarrow> err option list \<times> 'a state" where
  "run_each W [] st = ([], st)"
| "run_each W (c # cs) st =
     (case exec_block W c st of
        (r, st') \<Rightarrow> (case run_each W cs st' of (rs, st'') \<Rightarrow> (r # rs, st'')))"

section \<open>The tutorial notebook\<close>

text \<open>
  The code cells of the notebook "Hardware demonstration: ECG anomaly detection", in the
  order of the file. \<open>e.m(args)\<close> is the call of the attribute \<open>m\<close> of \<open>e\<close>.
\<close>

abbreviation MCall :: "expr \<Rightarrow> string \<Rightarrow> arg list \<Rightarrow> expr" where
  "MCall e m as \<equiv> Call (Attr e m) as"

definition tut_ipympl :: cell where
  "tut_ipympl =
   [Import ''importlib'' ''importlib'',
    IfS (BinOp (MCall (Attr (Name ''importlib'') ''util'') ''find_spec'' [Pos (StrC ''ipympl'')]) IsOp NoneC)
      [Magic ''!pip install ipympl'']
      []]"

definition tut_examples :: cell where
  "tut_examples =
   [Magic ''%matplotlib widget'',
    Import ''warnings'' ''warnings'',
    ExprS (MCall (Name ''warnings'') ''filterwarnings'' [Pos (StrC ''ignore'')]),
    ImportFrom ''scripts.plot_example_beats'' [(''plot_examples'', ''plot_examples''), (''labels'', ''labels'')],
    ExprS (Call (Name ''plot_examples'') [])]"

definition tut_data_loader :: cell where
  "tut_data_loader =
   [ImportFrom ''scripts.dataloader'' [(''ECGDataLoader'', ''ECGDataLoader'')],
    Assign (TName ''data_loader'') (Call (Name ''ECGDataLoader'') [])]"

definition tut_spike_enc :: cell where
  "tut_spike_enc =
   [ImportFrom ''rockpool.layers'' [(''FFUpDown'', ''FFUpDown'')],
    Assign (TName ''DT_ECG'') (FloatC (Dec 2778 (-6))),
    Assign (TName ''NUM_ECG_LEADS'') (IntC 2),
    Assign (TName ''NUM_ANOM_CLASSES'') (IntC 4),
    Assign (TName ''spike_enc'')
      (Call (Name ''FFUpDown'')
        [Kw ''weights'' (Name ''NUM_ECG_LEADS''),
         Kw ''dt'' (Name ''DT_ECG''),
         Kw ''thr_up'' (FloatC (Dec 1 (-1))),
         Kw ''thr_down'' (FloatC (Dec 1 (-1))),
         Kw ''multiplex_spikes'' (BoolC True),
         Kw ''name'' (StrC ''spike_encoder'')])]"

definition tut_reservoir :: cell where
  "tut_reservoir =
   [Import ''numpy'' ''np'',
    ImportFrom ''rockpool.layers'' [(''RecIAFSpkInNest'', ''RecIAFSpkInNest'')],
    Assign (TName ''weights_res_in'') (MCall (Name ''np'') ''load'' [Pos (StrC ''network/weights_res_in.npy'')]),
    Assign (TName ''weights_rec'') (MCall (Name ''np'') ''load'' [Pos (StrC ''network/weights_rec.npy'')]),
    Assign (TName ''start_rec'') (IntC 128),
    Assign (TName ''start_inh'') (BinOp (IntC 128) Add (IntC 512)),
    Assign (TName ''baseweight_inp'') (FloatC (Dec 5 (-4))),
    Assign (TName ''baseweight_exp_rec'') (FloatC (Dec 8 (-5))),
    Assign (TName ''baseweight_rec'') (FloatC (Dec 8 (-5))),
    Assign (TName ''baseweight_rec_inh'') (FloatC (Dec 8 (-5))),
    Assign (TName ''baseweight_inh'') (FloatC (Dec 1 (-4))),
    Assign (TName ''weights_res_in_scaled'')
      (BinOp (MCall (Name ''weights_res_in'') ''copy'' []) Mul (Name ''baseweight_inp'')),
    Assign (TName ''weights_rec_scaled'') (MCall (Name ''weights_rec'') ''copy'' []),
    AugAssignItem (Name ''weights_rec_scaled'')
      [Slice None (Some (Name ''start_rec'')), Slice (Some (Name ''start_rec'')) (Some (Name ''start_inh''))]
      Mul (Name ''baseweight_exp_rec''),
    AugAssignItem (Name ''weights_rec_scaled'')
      [Slice (Some (Name ''start_rec'')) (Some (Name ''start_inh'')),
       Slice (Some (Name ''start_rec'')) (Some (Name ''start_inh''))]
      Mul (Name ''baseweight_rec''),
    AugAssignItem (Name ''weights_rec_scaled'')
      [Slice (Some (Name ''start_rec'')) (Some (Name ''start_inh'')), Slice (Some (Name ''start_inh'')) None]
      Mul (Name ''baseweight_rec_inh''),
    AugAssignItem (Name ''weights_rec_scaled'')
      [Slice (Some (Name ''start_inh'')) None, Slice (Some (Name ''start_rec'')) (Some (Name ''start_inh''))]
      Mul (Name ''baseweight_inh''),
    Assign (TName ''kwargs_reservoir'')
      (Call (Name ''dict'') [Pos (MCall (Name ''np'') ''load'' [Pos (StrC ''network/kwargs_reservoir.npz'')])]),
    Assign (TName ''reservoir'')
      (Call (Name ''RecIAFSpkInNest'')
        [Kw ''weights_in'' (Name ''weights_res_in_scaled''),
         Kw ''weights_rec'' (Name ''weights_rec_scaled''),
         Kw ''name'' (StrC ''reservoir''),
         KwSplat (Name ''kwargs_reservoir'')])]"

definition tut_readout :: cell where
  "tut_readout =
   [ImportFrom ''rockpool.layers'' [(''FFExpSyn'', ''FFExpSyn'')],
    Assign (TName ''readout'')
      (Call (Name ''FFExpSyn'')
        [Kw ''weights'' (MCall (Name ''np'') ''zeros''
           [Pos (TupleE [Attr (Name ''reservoir'') ''size'', Name ''NUM_ANOM_CLASSES''])]),
         Kw ''bias'' (IntC 0),
         Kw ''dt'' (Name ''DT_ECG''),
         Kw ''tau_syn'' (FloatC (Dec 175 (-3))),
         Kw ''name'' (StrC ''readout'')])]"

definition tut_sw_net :: cell where
  "tut_sw_net =
   [ImportFrom ''rockpool'' [(''Network'', ''Network'')],
    Assign (TName ''sw_net'')
      (Call (Name ''Network'')
        [Pos (Name ''spike_enc''), Pos (Name ''reservoir''), Pos (Name ''readout''),
         Kw ''dt'' (Name ''DT_ECG'')])]"

text \<open>
  Three cells hold only comments: the training loop with \<open>readout.train_rr\<close>, the test on
  the training data and its plot.
\<close>

definition tut_training :: cell where
  "tut_training = []"

definition tut_test_on_training :: cell where
  "tut_test_on_training = []"

definition tut_plot_training :: cell where
  "tut_plot_training = []"

definition tut_load_readout :: cell where
  "tut_load_readout =
   [AssignAttr (Name ''readout'') ''weights'' (MCall (Name ''np'') ''load'' [Pos (StrC ''network/readout_weights.npy'')]),
    AssignAttr (Name ''readout'') ''bias'' (MCall (Name ''np'') ''load'' [Pos (StrC ''network/readout_bias.npy'')])]"

definition tut_inference :: cell where
  "tut_inference =
   [Assign (TName ''num_beats'') (IntC 100),
    Assign (TName ''ecg_data'') (MCall (Name ''data_loader'') ''get_single_batch'' [Kw ''num_beats'' (Name ''num_beats'')]),
    Assign (TName ''net_data'') (MCall (Name ''sw_net'') ''evolve'' [Pos (Attr (Name ''ecg_data'') ''input'')]),
    Assign (TName ''output'') (Subscript (Name ''net_data'') [Idx (StrC ''readout'')]),
    ExprS (MCall (Name ''sw_net'') ''reset_all'' [])]"

definition tut_plot_inference :: cell where
  "tut_plot_inference =
   [Magic ''%matplotlib widget'',
    ImportFrom ''matplotlib'' [(''pyplot'', ''plt'')],
    ImportFrom ''rockpool'' [(''TSContinuous'', ''TSContinuous'')],
    Assign (TName ''target'') (MCall (Attr (Name ''ecg_data'') ''target'') ''copy'' []),
    Assign (TName ''any_target'')
      (Call (Name ''TSContinuous'')
        [Pos (Attr (Name ''target'') ''times''),
         Pos (MCall (Name ''np'') ''any'' [Pos (Attr (Name ''target'') ''samples''), Kw ''axis'' (IntC 1)])]),
    Assign (TTuple [TName ''fig'', TName ''axes''])
      (MCall (Name ''plt'') ''subplots'' [Pos (IntC 2), Pos (IntC 2), Kw ''figsize'' (TupleE [IntC 8, IntC 6])]),
    ExprS (MCall (Name ''plt'') ''subplots_adjust''
      [Kw ''top'' (FloatC (Dec 95 (-2))), Kw ''bottom'' (FloatC (Dec 5 (-2))),
       Kw ''left'' (FloatC (Dec 5 (-2))), Kw ''right'' (FloatC (Dec 95 (-2))),
       Kw ''hspace'' (FloatC (Dec 2 (-1))), Kw ''wspace'' (FloatC (Dec 2 (-1)))]),
    ForS (TTuple [TName ''i_anom'', TTuple [TName ''ax'', TName ''lbl'']])
      (Call (Name ''enumerate'')
        [Pos (Call (Name ''zip'')
          [Pos (MCall (Name ''axes'') ''flatten'' []),
           Pos (Subscript (Name ''labels'') [Slice (Some (IntC 1)) None])])])
      [ExprS (MCall (MCall (Name ''output'') ''clip'' [Kw ''channels'' (Name ''i_anom'')]) ''plot''
         [Kw ''target'' (Name ''ax'')]),
       ExprS (MCall (Name ''any_target'') ''plot''
         [Kw ''target'' (Name ''ax''), Kw ''color'' (StrC ''gray''), Kw ''alpha'' (FloatC (Dec 5 (-1)))]),
       ExprS (MCall (MCall (Name ''target'') ''clip'' [Kw ''channels'' (Name ''i_anom'')]) ''plot''
         [Kw ''target'' (Name ''ax'')]),
       ExprS (MCall (Name ''ax'') ''set_title'' [Pos (Name ''lbl'')])]]"

definition tut_neuron_ids :: cell where
  "tut_neuron_ids =
   [ImportFrom ''rockpool.devices'' [(''rectangular_neuron_arrangement'', ''rectangular_neuron_arrangement'')],
    Assign (TName ''rectangular_arrangement'')
      (ListE
        [DictE [(''first_neuron'', IntC 4), (''num_neurons'', IntC 128), (''width'', IntC 8)],
         DictE [(''first_neuron'', IntC 256), (''num_neurons'', IntC 256), (''width'', IntC 16)],
         DictE [(''first_neuron'', IntC 768), (''num_neurons'', BinOp (IntC 512) Sub (IntC 256)), (''width'', IntC 16)],
         DictE [(''first_neuron'', IntC 516), (''num_neurons'', IntC 128), (''width'', IntC 8)]]),
    Assign (TName ''neuron_ids'') (ListE []),
    ForS (TName ''rectangle_params'') (Name ''rectangular_arrangement'')
      [AugAssign ''neuron_ids'' Add
         (Call (Name ''list'')
           [Pos (Call (Name ''rectangular_neuron_arrangement'') [KwSplat (Name ''rectangle_params'')])])],
    Assign (TName ''virtual_neuron_ids'') (ListE [IntC 1, IntC 2, IntC 3, IntC 12])]"

definition tut_controller :: cell where
  "tut_controller =
   [ImportFrom ''rockpool.devices'' [(''DynapseControlExtd'', ''DynapseControlExtd'')],
    Assign (TName ''controller'') (Call (Name ''DynapseControlExtd'') []),
    Assign (TName ''bias_path'') (StrC ''network/biases.py''),
    ExprS (MCall (Name ''controller'') ''load_biases'' [Pos (Name ''bias_path'')]),
    Assign (TName ''silence_hot_neurons_dur'') (IntC 5),
    Assign (TName ''hot_neurons'')
      (MCall (Name ''controller'') ''silence_hot_neurons''
        [Pos (Name ''neuron_ids''), Pos (Name ''silence_hot_neurons_dur'')])]"

definition tut_reservoir_hw :: cell where
  "tut_reservoir_hw =
   [ImportFrom ''rockpool.layers'' [(''RecDynapSE'', ''RecDynapSE'')],
    Assign (TName ''dt_hardware'') (BinOp (FloatC (Dec 1 (-1))) Mul (Attr (Name ''reservoir'') ''dt'')),
    Assign (TName ''reservoir_hw'')
      (Call (Name ''RecDynapSE'')
        [Kw ''weights_in'' (Name ''weights_res_in''),
         Kw ''weights_rec'' (Name ''weights_rec''),
         Kw ''neuron_ids'' (Name ''neuron_ids''),
         Kw ''virtual_neuron_ids'' (Name ''virtual_neuron_ids''),
         Kw ''dt'' (Name ''dt_hardware''),
         Kw ''controller'' (Name ''controller''),
         Kw ''skip_weights'' (BoolC True),
         Kw ''name'' (StrC ''hardware'')])]"

definition tut_readout_hw :: cell where
  "tut_readout_hw =
   [Assign (TName ''readout_hw'')
      (Call (Name ''FFExpSyn'')
        [Kw ''weights'' (MCall (Name ''np'') ''zeros''
           [Pos (TupleE [Attr (Name ''reservoir_hw'') ''size'', Name ''NUM_ANOM_CLASSES''])]),
         Kw ''bias'' (IntC 0),
         Kw ''dt'' (Name ''DT_ECG''),
         Kw ''tau_syn'' (FloatC (Dec 175 (-3))),
         Kw ''name'' (StrC ''readout'')])]"

definition tut_hw_net :: cell where
  "tut_hw_net =
   [ExprS (MCall (Name ''sw_net'') ''reset_all'' []),
    Assign (TName ''hw_net'')
      (Call (Name ''Network'')
        [Pos (Name ''spike_enc''), Pos (Name ''reservoir_hw''), Pos (Name ''readout_hw''),
         Kw ''dt'' (Name ''DT_ECG'')])]"

text \<open>A cell that holds only comments: the training loop with \<open>readout_hw.train_rr\<close>.\<close>

definition tut_training_hw :: cell where
  "tut_training_hw = []"

definition tut_load_readout_hw :: cell where
  "tut_load_readout_hw =
   [AssignAttr (Name ''readout_hw'') ''weights''
      (Subscript (MCall (Name ''np'') ''load'' [Pos (StrC ''network/readout_weights_hw.npy'')])
         [Slice None None, Slice None (Some (IntC 4))]),
    AssignAttr (Name ''readout_hw'') ''bias''
      (Subscript (MCall (Name ''np'') ''load'' [Pos (StrC ''network/readout_bias_hw.npy'')])
         [Slice None (Some (IntC 4))])]"

definition tut_inference_hw :: cell where
  "tut_inference_hw =
   [Assign (TName ''num_beats'') (IntC 100),
    Assign (TName ''ecg_data_hw'') (MCall (Name ''data_loader'') ''get_single_batch'' [Kw ''num_beats'' (Name ''num_beats'')]),
    ExprS (MCall (Attr (Name ''ecg_data_hw'') ''input'') ''plot'' []),
    Assign (TName ''net_data_hw'') (MCall (Name ''hw_net'') ''evolve'' [Pos (Attr (Name ''ecg_data_hw'') ''input'')]),
    ExprS (MCall (Name ''hw_net'') ''reset_all'' []),
    Assign (TName ''output_hw'') (Subscript (Name ''net_data_hw'') [Idx (StrC ''readout'')]),
    ExprS (Call (Name ''print'') [Pos (StrC ''Ready'')])]"

definition tut_plot_stages :: cell where
  "tut_plot_stages =
   [Magic ''%matplotlib widget'',
    Assign (TTuple [TName ''fig'', TName ''axes''])
      (MCall (Name ''plt'') ''subplots''
        [Pos (IntC 4), Kw ''sharex'' (BoolC True), Kw ''figsize'' (TupleE [IntC 8, IntC 40])]),
    ExprS (MCall (Name ''plt'') ''subplots_adjust''
      [Kw ''top'' (FloatC (Dec 95 (-2))), Kw ''bottom'' (FloatC (Dec 5 (-2))),
       Kw ''left'' (FloatC (Dec 15 (-2))), Kw ''right'' (FloatC (Dec 95 (-2))),
       Kw ''hspace'' (FloatC (Dec 5 (-1))), Kw ''wspace'' (FloatC (Dec 2 (-1)))]),
    Assign (TName ''t_start'') (IntC 5),
    Assign (TName ''t_stop'') (IntC 7),
    AssignItem (Name ''net_data_hw'') [Idx (StrC ''readout'')]
      (Call (Name ''abs'') [Pos (Subscript (Name ''net_data_hw'') [Idx (StrC ''readout'')])]),
    ForS (TTuple [TName ''layername'', TName ''ax''])
      (Call (Name ''zip'')
        [Pos (ListE [StrC ''external'', StrC ''spike_encoder'', StrC ''hardware'', StrC ''readout'']),
         Pos (Name ''axes'')])
      [IfS (BinOp (Name ''layername'') InOp (ListE [StrC ''spike_encoder'', StrC ''hardware'']))
         [ExprS (MCall (MCall (Subscript (Name ''net_data_hw'') [Idx (Name ''layername'')]) ''clip''
                   [Kw ''t_start'' (IntC 5), Kw ''t_stop'' (IntC 7)]) ''plot''
            [Kw ''target'' (Name ''ax''), Kw ''s'' (IntC 2)])]
         [ExprS (MCall (MCall (Subscript (Name ''net_data_hw'') [Idx (Name ''layername'')]) ''clip''
                   [Kw ''t_start'' (IntC 5), Kw ''t_stop'' (IntC 7)]) ''plot''
            [Kw ''target'' (Name ''ax'')])],
       ExprS (MCall (Name ''ax'') ''set_title'' [Pos (Name ''layername'')])],
    ExprS (MCall (Name ''ax'') ''set_xlabel'' [Pos (StrC ''Time [s]'')]),
    Assign (TName ''target_hw'') (MCall (Attr (Name ''ecg_data_hw'') ''target'') ''copy'' []),
    Assign (TName ''any_target_hw'')
      (Call (Name ''TSContinuous'')
        [Pos (Attr (Name ''target_hw'') ''times''),
         Pos (MCall (Name ''np'') ''any'' [Pos (Attr (Name ''target_hw'') ''samples''), Kw ''axis'' (IntC 1)])]),
    ExprS (MCall (MCall (Name ''any_target_hw'') ''clip''
             [Kw ''t_start'' (Name ''t_start''), Kw ''t_stop'' (Name ''t_stop'')]) ''plot''
      [Kw ''target'' (Name ''ax''), Kw ''color'' (StrC ''k''), Kw ''lw'' (IntC 3), Kw ''ls'' (StrC ''--'')])]"

definition tut_plot_inference_hw :: cell where
  "tut_plot_inference_hw =
   [Magic ''%matplotlib widget'',
    Assign (TTuple [TName ''fig'', TName ''axes''])
      (MCall (Name ''plt'') ''subplots'' [Pos (IntC 2), Pos (IntC 2), Kw ''figsize'' (TupleE [IntC 8, IntC 6])]),
    ExprS (MCall (Name ''plt'') ''subplots_adjust''
      [Kw ''top'' (FloatC (Dec 95 (-2))), Kw ''bottom'' (FloatC (Dec 5 (-2))),
       Kw ''left'' (FloatC (Dec 1 (-1))), Kw ''right'' (FloatC (Dec 95 (-2))),
       Kw ''hspace'' (FloatC (Dec 5 (-1))), Kw ''wspace'' (FloatC (Dec 2 (-1)))]),
    ForS (TTuple [TName ''i_anom'', TTuple [TName ''ax'', TName ''lbl'']])
      (Call (Name ''enumerate'')
        [Pos (Call (Name ''zip'')
          [Pos (MCall (Name ''axes'') ''flatten'' []),
           Pos (Subscript (Name ''labels'') [Slice (Some (IntC 1)) None])])])
      [ExprS (MCall (Call (Name ''abs'') [Pos (MCall (Name ''output_hw'') ''clip'' [Kw ''channels'' (Name ''i_anom'')])]) ''plot''
         [Kw ''target'' (Name ''ax'')]),
       ExprS (MCall (Name ''any_target_hw'') ''plot''
         [Kw ''target'' (Name ''ax''), Kw ''color'' (StrC ''limegreen'')]),
       ExprS (MCall (MCall (Name ''target_hw'') ''clip'' [Kw ''channels'' (Name ''i_anom'')]) ''plot''
         [Kw ''target'' (Name ''ax'')]),
       ExprS (MCall (Name ''ax'') ''set_title'' [Pos (Name ''lbl'')])]]"

definition tut_output_hw :: cell where
  "tut_output_hw = [ExprS (Name ''output_hw'')]"

definition tutorial :: "cell list" where
  "tutorial =
   [tut_ipympl, tut_examples, tut_data_loader, tut_spike_enc, tut_reservoir, tut_readout,
    tut_sw_net, tut_training, tut_test_on_training, tut_plot_training, tut_load_readout,
    tut_inference, tut_plot_inference, tut_neuron_ids, tut_controller, tut_reservoir_hw,
    tut_readout_hw, tut_hw_net, tut_training_hw, tut_load_readout_hw, tut_inference_hw,
    tut_plot_stages, tut_plot_inference_hw, tut_output_hw]"

section \<open>The demo notebook\<close>

text \<open>The code cells of "ECG Demo Notebook.ipynb", in the order of the file.\<close>

definition demo_imports :: cell where
  "demo_imports =
   [Import ''numpy'' ''np'',
    ImportFrom ''matplotlib'' [(''pyplot'', ''plt'')],
    Assign (TName ''DT_ECG'') (FloatC (Dec 2778 (-6))),
    Assign (TName ''NUM_ECG_LEADS'') (IntC 2),
    Assign (TName ''NUM_ANOM_CLASSES'') (IntC 5),
    Assign (TName ''MAX_FANIN'') (IntC 64)]"

definition demo_examples :: cell where
  "demo_examples =
   [Magic ''%matplotlib widget'',
    ImportFrom ''scripts.plot_example_beats'' [(''plot_examples'', ''plot_examples''), (''labels'', ''labels'')],
    ExprS (Call (Name ''plot_examples'') [])]"

definition demo_data_loader :: cell where
  "demo_data_loader =
   [ImportFrom ''scripts.dataloader'' [(''ECGDataLoader'', ''ECGDataLoader'')],
    Assign (TName ''data_loader'') (Call (Name ''ECGDataLoader'') [])]"

definition demo_spike_enc :: cell where
  "demo_spike_enc =
   [ImportFrom ''rockpool.layers'' [(''FFUpDown'', ''FFUpDown'')],
    Assign (TName ''spike_enc'')
      (Call (Name ''FFUpDown'')
        [Kw ''weights'' (Name ''NUM_ECG_LEADS''),
         Kw ''dt'' (Name ''DT_ECG''),
         Kw ''thr_up'' (FloatC (Dec 1 (-1))),
         Kw ''thr_down'' (FloatC (Dec 1 (-1))),
         Kw ''multiplex_spikes'' (BoolC True),
         Kw ''name'' (StrC ''spike_encoder'')])]"

definition demo_weights_expand :: cell where
  "demo_weights_expand =
   [Magic ''%matplotlib widget'',
    Assign (TName ''num_ch_in'') (BinOp (IntC 2) Mul (Name ''NUM_ECG_LEADS'')),
    Assign (TName ''size_expand'') (IntC 128),
    Assign (TName ''baseweight_expand'') (FloatC (Dec 5 (-4))),
    Assign (TName ''weights_expand'') (MCall (Name ''np'') ''load'' [Pos (StrC ''network/weights_expand.npy'')]),
    ExprS (MCall (Name ''plt'') ''imshow'' [Pos (Name ''weights_expand''), Kw ''aspect'' (StrC ''auto'')]),
    ExprS (MCall (Name ''plt'') ''title''
      [Pos (StrC ''Weights of dimensionality expansion layer''), Kw ''fontsize'' (IntC 18)])]"

definition demo_weights_rec :: cell where
  "demo_weights_rec =
   [ImportFrom ''rockpool.weights'' [(''partitioned_2d_reservoir'', ''partitioned_2d_reservoir'')],
    Assign (TName ''size_rec'') (IntC 512),
    Assign (TName ''size_inh'') (IntC 128),
    Assign (TName ''size_reservoir'') (BinOp (Name ''size_rec'') Add (Name ''size_inh'')),
    Assign (TName ''num_exp_rec'') (IntC 16),
    Assign (TName ''num_inh'') (IntC 16),
    Assign (TName ''num_rec_inh'') (IntC 64),
    Assign (TName ''num_rec_short'') (IntC 24),
    Assign (TName ''num_rec_long'') (IntC 8),
    Assign (TName ''baseweight_exp_rec'') (FloatC (Dec 8 (-5))),
    Assign (TName ''baseweight_rec'') (FloatC (Dec 8 (-5))),
    Assign (TName ''baseweight_rec_inh'') (FloatC (Dec 8 (-5))),
    Assign (TName ''baseweight_inh'') (FloatC (Dec 1 (-4))),
    Assign (TName ''weights_res_in'')
      (MCall (Name ''np'') ''hstack''
        [Pos (TupleE [Name ''weights_expand'',
                      MCall (Name ''np'') ''zeros'' [Pos (TupleE [Name ''num_ch_in'', Name ''size_reservoir''])]])]),
    Assign (TName ''weights_rec'') (MCall (Name ''np'') ''load'' [Pos (StrC ''network/weights_rec.npy'')]),
    Assign (TName ''weights_res_in_scaled'')
      (BinOp (MCall (Name ''weights_res_in'') ''copy'' []) Mul (Name ''baseweight_expand'')),
    Assign (TName ''start_rec'') (Name ''size_expand''),
    Assign (TName ''start_inh'') (BinOp (Name ''size_expand'') Add (Name ''size_rec'')),
    Assign (TName ''weights_rec_scaled'') (MCall (Name ''weights_rec'') ''copy'' []),
    AugAssignItem (Name ''weights_rec_scaled'')
      [Slice None (Some (Name ''start_rec'')), Slice (Some (Name ''start_rec'')) (Some (Name ''start_inh''))]
      Mul (Name ''baseweight_exp_rec''),
    AugAssignItem (Name ''weights_rec_scaled'')
      [Slice (Some (Name ''start_rec'')) (Some (Name ''start_inh'')),
       Slice (Some (Name ''start_rec'')) (Some (Name ''start_inh''))]
      Mul (Name ''baseweight_rec''),
    AugAssignItem (Name ''weights_rec_scaled'')
      [Slice (Some (Name ''start_rec'')) (Some (Name ''start_inh'')), Slice (Some (Name ''start_inh'')) None]
      Mul (Name ''baseweight_rec_inh''),
    AugAssignItem (Name ''weights_rec_scaled'')
      [Slice (Some (Name ''start_inh'')) None, Slice (Some (Name ''start_rec'')) (Some (Name ''start_inh''))]
      Mul (Name ''baseweight_inh'')]"

definition demo_plot_res_in :: cell where
  "demo_plot_res_in =
   [Magic ''%matplotlib widget'',
    ExprS (MCall (Name ''plt'') ''imshow'' [Pos (Name ''weights_res_in_scaled''), Kw ''aspect'' (StrC ''auto'')]),
    ExprS (MCall (Name ''plt'') ''title'' [Pos (StrC ''Connections from expansion layer to reservoir'')]),
    ExprS (MCall (Name ''plt'') ''xlabel'' [Pos (StrC ''Postsynaptic neurons'')]),
    ExprS (MCall (Name ''plt'') ''ylabel'' [Pos (StrC ''Presynaptic neurons'')])]"

definition demo_plot_rec :: cell where
  "demo_plot_rec =
   [Magic ''%matplotlib widget'',
    ExprS (MCall (Name ''plt'') ''imshow'' [Pos (Name ''weights_rec_scaled''), Kw ''aspect'' (StrC ''auto'')]),
    ExprS (MCall (Name ''plt'') ''title'' [Pos (StrC ''Recurrent reservoir connections'')]),
    ExprS (MCall (Name ''plt'') ''xlabel'' [Pos (StrC ''Postsynaptic neurons'')]),
    ExprS (MCall (Name ''plt'') ''ylabel'' [Pos (StrC ''Presynaptic neurons'')])]"

definition demo_reservoir :: cell where
  "demo_reservoir =
   [ImportFrom ''rockpool.layers'' [(''RecIAFSpkInNest'', ''RecIAFSpkInNest'')],
    Assign (TName ''kwargs_reservoir'')
      (Call (Name ''dict'') [Pos (MCall (Name ''np'') ''load'' [Pos (StrC ''network/kwargs_reservoir.npz'')])]),
    Assign (TName ''reservoir'')
      (Call (Name ''RecIAFSpkInNest'')
        [Kw ''weights_in'' (Name ''weights_res_in''),
         Kw ''weights_rec'' (Name ''weights_rec''),
         Kw ''name'' (StrC ''reservoir''),
         KwSplat (Name ''kwargs_reservoir'')])]"

definition demo_readout :: cell where
  "demo_readout =
   [ImportFrom ''rockpool.layers'' [(''FFExpSyn'', ''FFExpSyn'')],
    Assign (TName ''readout'')
      (Call (Name ''FFExpSyn'')
        [Kw ''weights'' (MCall (Name ''np'') ''zeros''
           [Pos (TupleE [Name ''size_full'', Name ''NUM_ANOM_CLASSES''])]),
         Kw ''bias'' (IntC 0),
         Kw ''dt'' (Name ''DT_ECG''),
         Kw ''tau_syn'' (FloatC (Dec 175 (-3))),
         Kw ''name'' (StrC ''readout'')])]"

definition demo_sw_net :: cell where
  "demo_sw_net =
   [ImportFrom ''rockpool'' [(''Network'', ''Network'')],
    Assign (TName ''sw_net'')
      (Call (Name ''Network'')
        [Pos (Name ''spike_enc''), Pos (Name ''reservoir''), Pos (Name ''readout''),
         Kw ''dt'' (Name ''DT_ECG'')])]"

text \<open>
  Three cells hold only comments: the training loop with \<open>readout.train_rr\<close>, the test on
  the training data and its plot (with the only import of \<open>TSContinuous\<close>).
\<close>

definition demo_training :: cell where
  "demo_training = []"

definition demo_test_on_training :: cell where
  "demo_test_on_training = []"

definition demo_plot_training :: cell where
  "demo_plot_training = []"

definition demo_load_readout :: cell where
  "demo_load_readout =
   [AssignAttr (Name ''readout'') ''weights'' (MCall (Name ''np'') ''load'' [Pos (StrC ''network/readout_weights.npy'')]),
    AssignAttr (Name ''readout'') ''bias'' (MCall (Name ''np'') ''load'' [Pos (StrC ''network/readout_bias.npy'')])]"

definition demo_inference :: cell where
  "demo_inference =
   [Assign (TName ''num_beats'') (IntC 100),
    Assign (TName ''ecg_data'') (MCall (Name ''data_loader'') ''get_single_batch'' [Kw ''num_beats'' (Name ''num_beats'')]),
    Assign (TName ''net_data'') (MCall (Name ''sw_net'') ''evolve'' [Pos (Attr (Name ''ecg_data'') ''input'')]),
    Assign (TName ''output'') (Subscript (Name ''net_data'') [Idx (StrC ''readout'')]),
    ExprS (MCall (Name ''sw_net'') ''reset_all'' [])]"

definition demo_plot_inference :: cell where
  "demo_plot_inference =
   [Magic ''%matplotlib widget'',
    Assign (TName ''target'') (Attr (Name ''ecg_data'') ''target''),
    Assign (TName ''any_target'')
      (Call (Name ''TSContinuous'')
        [Pos (Attr (Name ''target'') ''times''),
         Pos (MCall (Name ''np'') ''any'' [Pos (Attr (Name ''target'') ''samples''), Kw ''axis'' (IntC 1)])]),
    Assign (TTuple [TName ''fig'', TName ''axes''])
      (MCall (Name ''plt'') ''subplots'' [Pos (IntC 3), Pos (IntC 2), Kw ''figsize'' (TupleE [IntC 8, IntC 10])]),
    ExprS (MCall (Subscript (Name ''axes'') [Idx (IntC (-1)), Idx (IntC (-1))]) ''set_visible'' [Pos (BoolC False)]),
    ExprS (MCall (Name ''plt'') ''subplots_adjust''
      [Kw ''top'' (FloatC (Dec 98 (-2))), Kw ''bottom'' (FloatC (Dec 5 (-2))),
       Kw ''left'' (FloatC (Dec 15 (-2))), Kw ''right'' (FloatC (Dec 95 (-2))),
       Kw ''hspace'' (FloatC (Dec 5 (-1))), Kw ''wspace'' (FloatC (Dec 2 (-1)))]),
    ForS (TTuple [TName ''i_anom'', TTuple [TName ''ax'', TName ''lbl'']])
      (Call (Name ''enumerate'')
        [Pos (Call (Name ''zip'')
          [Pos (Subscript (MCall (Name ''axes'') ''flatten'' []) [Slice None (Some (IntC (-1)))]),
           Pos (Name ''labels'')])])
      [ExprS (MCall (MCall (Name ''output'') ''clip'' [Kw ''channels'' (Name ''i_anom'')]) ''plot''
         [Kw ''target'' (Name ''ax'')]),
       ExprS (MCall (Name ''any_target'') ''plot''
         [Kw ''target'' (Name ''ax''), Kw ''color'' (StrC ''gray''), Kw ''alpha'' (FloatC (Dec 5 (-1)))]),
       ExprS (MCall (MCall (Name ''target'') ''clip'' [Kw ''channels'' (Name ''i_anom'')]) ''plot''
         [Kw ''target'' (Name ''ax'')]),
       ExprS (MCall (Name ''ax'') ''set_title'' [Pos (Name ''lbl'')])]]"

definition demo_hw_imports :: cell where
  "demo_hw_imports =
   [ImportFrom ''rockpool.devices''
      [(''rectangular_neuron_arrangement'', ''rectangular_neuron_arrangement''),
       (''DynapseControlExtd'', ''DynapseControlExtd'')],
    ImportFrom ''rockpool.layers'' [(''RecDynapSE'', ''RecDynapSE'')],
    Assign (TName ''bias_path'') (StrC ''network/biases.py''),
    Assign (TName ''silence_hot_neurons_dur'') (IntC 5)]"

definition demo_neuron_ids :: cell where
  "demo_neuron_ids =
   [Assign (TName ''rectangular_arrangement'')
      (ListE
        [DictE [(''first_neuron'', IntC 4), (''num_neurons'', Name ''size_in''), (''width'', IntC 8)],
         DictE [(''first_neuron'', IntC 256), (''num_neurons'', IntC 256), (''width'', IntC 16)],
         DictE [(''first_neuron'', IntC 768), (''num_neurons'', BinOp (Name ''size_rec'') Sub (IntC 256)), (''width'', IntC 16)],
         DictE [(''first_neuron'', IntC 516), (''num_neurons'', Name ''size_inhib''), (''width'', IntC 8)]]),
    Assign (TName ''neuron_ids'') (ListE []),
    ForS (TName ''rectangle_params'') (Name ''rectangular_arrangement'')
      [AugAssign ''neuron_ids'' Add
         (Call (Name ''list'')
           [Pos (Call (Name ''rectangular_neuron_arrangement'') [KwSplat (Name ''rectangle_params'')])])],
    Assign (TName ''virtual_neuron_ids'') (ListE [IntC 1, IntC 2, IntC 3, IntC 12])]"

definition demo_controller :: cell where
  "demo_controller =
   [Assign (TName ''controller'')
      (Call (Name ''DynapseControlExtd'') [Kw ''fpga_isibase'' (Attr (Name ''reservoir'') ''dt'')]),
    ExprS (MCall (Name ''controller'') ''load_biases'' [Pos (Name ''bias_path'')]),
    Assign (TName ''hot_neurons'')
      (MCall (Name ''controller'') ''silence_hot_neurons''
        [Pos (Name ''neuron_ids''), Pos (Name ''silence_hot_neurons_dur'')])]"

definition demo_hw_layer :: cell where
  "demo_hw_layer =
   [Assign (TName ''hw_layer'')
      (Call (Name ''RecDynapSE'')
        [Kw ''weights_in'' (Name ''weights_res_in''),
         Kw ''weights_rec'' (Name ''weights_rec''),
         Kw ''neuron_ids'' (Name ''neuron_ids''),
         Kw ''virtual_neuron_ids'' (Name ''virtual_neuron_ids''),
         Kw ''dt'' (Attr (Name ''reservoir'') ''dt''),
         Kw ''controller'' (Name ''controller''),
         Kw ''clearcores_list'' (ListE [IntC 0, IntC 1, IntC 2, IntC 3]),
         Kw ''name'' (StrC ''hardware'')])]"

definition demo_readout_hw :: cell where
  "demo_readout_hw =
   [Assign (TName ''readout_hw'')
      (Call (Name ''FFExpSyn'')
        [Kw ''weights'' (MCall (Name ''np'') ''zeros''
           [Pos (TupleE [Name ''size_full'', Name ''NUM_ANOM_CLASSES''])]),
         Kw ''bias'' (IntC 0),
         Kw ''dt'' (Name ''DT_ECG''),
         Kw ''tau_syn'' (FloatC (Dec 175 (-3))),
         Kw ''name'' (StrC ''readout'')])]"

definition demo_hw_net :: cell where
  "demo_hw_net =
   [ExprS (MCall (Name ''sw_net'') ''reset_all'' []),
    Assign (TName ''hw_net'')
      (Call (Name ''Network'')
        [Pos (Name ''spike_enc''), Pos (Name ''hw_layer''), Pos (Name ''readout_hw''),
         Kw ''dt'' (Name ''DT_ECG'')])]"

text \<open>A cell that holds only comments: the training loop with \<open>readout_hw.train_rr\<close>.\<close>

definition demo_training_hw :: cell where
  "demo_training_hw = []"

definition demo_load_readout_hw :: cell where
  "demo_load_readout_hw =
   [AssignAttr (Name ''readout_hw'') ''weights'' (MCall (Name ''np'') ''load'' [Pos (StrC ''network/readout_weights_hw.py'')]),
    AssignAttr (Name ''readout_hw'') ''bias'' (MCall (Name ''np'') ''load'' [Pos (StrC ''network/readout_bias_hw.py'')])]"

definition demo_inference_hw :: cell where
  "demo_inference_hw =
   [Assign (TName ''num_beats'') (IntC 100),
    Assign (TName ''ecg_data'') (MCall (Name ''data_loader'') ''get_single_batch'' [Kw ''num_beats'' (Name ''num_beats'')]),
    Assign (TName ''net_data'') (MCall (Name ''hw_net'') ''evolve'' [Pos (Attr (Name ''ecg_data'') ''input'')]),
    Assign (TName ''output'') (Subscript (Name ''net_data'') [Idx (StrC ''readout'')])]"

definition demo_plot_inference_hw :: cell where
  "demo_plot_inference_hw =
   [Magic ''%matplotlib widget'',
    Assign (TName ''target'') (Attr (Name ''ecg_data'') ''target''),
    Assign (TName ''any_target'')
      (Call (Name ''TSContinuous'')
        [Pos (Attr (Name ''target'') ''times''),
         Pos (MCall (Name ''np'') ''any'' [Pos (Attr (Name ''target'') ''samples''), Kw ''axis'' (IntC 1)])]),
    Assign (TTuple [TName ''fig'', TName ''axes''])
      (MCall (Name ''plt'') ''subplots'' [Pos (IntC 3), Pos (IntC 2), Kw ''figsize'' (TupleE [IntC 8, IntC 10])]),
    ExprS (MCall (Name ''plt'') ''subplots_adjust''
      [Kw ''top'' (FloatC (Dec 98 (-2))), Kw ''bottom'' (FloatC (Dec 5 (-2))),
       Kw ''left'' (FloatC (Dec 15 (-2))), Kw ''right'' (FloatC (Dec 95 (-2))),
       Kw ''hspace'' (FloatC (Dec 5 (-1))), Kw ''wspace'' (FloatC (Dec 2 (-1)))]),
    ForS (TTuple [TName ''i_anom'', TTuple [TName ''ax'', TName ''lbl'']])
      (Call (Name ''enumerate'')
        [Pos (Call (Name ''zip'')
          [Pos (Subscript (MCall (Name ''axes'') ''flatten'' []) [Slice None (Some (IntC (-1)))]),
           Pos (Name ''labels'')])])
      [ExprS (MCall (MCall (Name ''output'') ''clip'' [Kw ''channels'' (Name ''i_anom'')]) ''plot''
         [Kw ''target'' (Name ''ax'')]),
       ExprS (MCall (Name ''any_target'') ''plot''
         [Kw ''target'' (Name ''ax''), Kw ''color'' (StrC ''gray''), Kw ''alpha'' (FloatC (Dec 5 (-1)))]),
       ExprS (MCall (MCall (Name ''target'') ''clip'' [Kw ''channels'' (Name ''i_anom'')]) ''plot''
         [Kw ''target'' (Name ''ax'')]),
       ExprS (MCall (Name ''ax'') ''set_title'' [Pos (Name ''lbl'')])]]"

definition demo :: "cell list" where
  "demo =
   [demo_imports, demo_examples, demo_data_loader, demo_spike_enc, demo_weights_expand,
    demo_weights_rec, demo_plot_res_in, demo_plot_rec, demo_reservoir, demo_readout,
    demo_sw_net, demo_training, demo_test_on_training, demo_plot_training, demo_load_readout,
    demo_inference, demo_plot_inference, demo_hw_imports, demo_neuron_ids, demo_controller,
    demo_hw_layer, demo_readout_hw, demo_hw_net, demo_training_hw, demo_load_readout_hw,
    demo_inference_hw, demo_plot_inference_hw]"

section \<open>Evaluating a run\<close>

text \<open>The equations that unfold one step of the interpreter on a given statement.\<close>

lemmas run_simps =
  bnd_Inl bnd_Inr bnd_s_Inl bnd_s_Inr thn_Some thn_None lookup_def emit_def alloc_def
  bind_name_def builtins_def pure_builtins_def call_def ext_call_def np_load_def np_zeros_call_def
  np_hstack_def binop_def subscript_def aug_item_def set_item_def
  iter_items_def truthy_def init_state_def binop_name_def np_zeros_def length_zero_rows

lemmas tutorial_cells =
  tut_ipympl_def tut_examples_def tut_data_loader_def tut_spike_enc_def tut_reservoir_def
  tut_readout_def tut_sw_net_def tut_training_def tut_test_on_training_def
  tut_plot_training_def tut_load_readout_def tut_inference_def tut_plot_inference_def
  tut_neuron_ids_def tut_controller_def tut_reservoir_hw_def tut_readout_hw_def
  tut_hw_net_def tut_training_hw_def tut_load_readout_hw_def tut_inference_hw_def
  tut_plot_stages_def tut_plot_inference_hw_def tut_output_hw_def

lemmas demo_cells =
  demo_imports_def demo_examples_def demo_data_loader_def demo_spike_enc_def
  demo_weights_expand_def demo_weights_rec_def demo_plot_res_in_def demo_plot_rec_def
  demo_reservoir_def demo_readout_def demo_sw_net_def demo_training_def
  demo_test_on_training_def demo_plot_training_def demo_load_readout_def
  demo_inference_def demo_plot_inference_def demo_hw_imports_def demo_neuron_ids_def
  demo_controller_def demo_hw_layer_def demo_readout_hw_def demo_hw_net_def
  demo_training_hw_def demo_load_readout_hw_def demo_inference_hw_def
  demo_plot_inference_hw_def

text \<open>The array that a name of the namespace refers to.\<close>

definition array_of :: "'a state \<Rightarrow> string \<Rightarrow> 'a ndarray option" where
  "array_of st x =
     (case map_of (env st) x of
        Some (VRef a) \<Rightarrow> if a < length (heap st) then Some (heap st ! a) else None
      | _ \<Rightarrow> None)"

text \<open>
  A world for the examples: small arrays in the files the notebooks read, a product
  that shows which float an entry was multiplied by, two elements in every external
  iterable.
\<close>

definition example_files :: "string \<Rightarrow> int diskfile option" where
  "example_files p =
     (if p = ''network/weights_res_in.npy'' then Some (NpyFile (A2 [[1, 2], [3, 4]]))
      else if p = ''network/weights_expand.npy'' then Some (NpyFile (A2 [[1], [2], [3], [4]]))
      else if p = ''network/weights_rec.npy'' then Some (NpyFile (A2 [[1, 2], [3, 4]]))
      else if p = ''network/readout_weights.npy'' then Some (NpyFile (A2 [[1, 2, 3, 4], [5, 6, 7, 8]]))
      else if p = ''network/readout_bias.npy'' then Some (NpyFile (A1 [1, 2, 3, 4]))
      else if p = ''network/readout_weights_hw.npy'' then Some (NpyFile (A2 [[1, 2, 3, 4, 5], [6, 7, 8, 9, 10]]))
      else if p = ''network/readout_bias_hw.npy'' then Some (NpyFile (A1 [1, 2, 3, 4, 5]))
      else if p = ''network/readout_weights_hw.py'' then Some (NpyFile (A2 [[1, 2, 3, 4, 5], [6, 7, 8, 9, 10]]))
      else if p = ''network/readout_bias_hw.py'' then Some (NpyFile (A1 [1, 2, 3, 4, 5]))
      else if p = ''network/kwargs_reservoir.npz'' then Some OtherFile
      else None)"

definition example_world :: "int world" where
  "example_world =
     \<lparr>w_files = example_files,
      w_mul = (\<lambda>x b. case b of Dec m e \<Rightarrow> (x + 1) * m),
      w_zero = 0,
      w_items = (\<lambda>v. [VOp ''item'' [v, VInt 0], VOp ''item'' [v, VInt 1]]),
      w_truth = (\<lambda>v. True)\<rparr>"

text \<open>The same world with a recurrent matrix of 641 rows and columns, all entries 0.\<close>

definition block_world :: "int world" where
  "block_world =
     example_world\<lparr>w_files := (\<lambda>p.
        if p = ''network/weights_rec.npy'' then Some (NpyFile (A2 (replicate 641 (replicate 641 0))))
        else example_files p)\<rparr>"

section \<open>Reading a trace\<close>

text \<open>The arguments of the calls of an imported class or function, in the order of the trace.\<close>

fun call_args :: "string \<Rightarrow> 'a event \<Rightarrow> ('a val list \<times> (string \<times> 'a val) list) option" where
  "call_args g (ECall (VGlobal f) pos kws) = (if f = g then Some (pos, kws) else None)"
| "call_args g _ = None"

definition calls_of :: "string \<Rightarrow> 'a event list \<Rightarrow> ('a val list \<times> (string \<times> 'a val) list) list" where
  "calls_of g tr = List.map_filter (call_args g) tr"

text \<open>A call of the method \<open>m\<close> of some object.\<close>

fun is_method_call :: "string \<Rightarrow> 'a event \<Rightarrow> bool" where
  "is_method_call m (ECall (VAttr v a) pos kws) = (a = m)"
| "is_method_call m _ = False"

lemma calls_of_rev: "calls_of g (rev evs) = rev (calls_of g evs)"
  by (induction evs) (simp_all add: calls_of_def List.map_filter_def)

lemma calls_of_Cons:
  "calls_of g (e # evs) = (case call_args g e of None \<Rightarrow> calls_of g evs | Some a \<Rightarrow> a # calls_of g evs)"
  by (simp add: calls_of_def List.map_filter_def split: option.splits)

lemma calls_of_Nil: "calls_of g [] = []"
  by (simp add: calls_of_def List.map_filter_def)

lemmas trace_simps = trace_def calls_of_rev calls_of_Cons calls_of_Nil rev_filter [symmetric]

text \<open>The names a statement can bind, and those of a whole notebook.\<close>

fun target_names :: "target \<Rightarrow> string list" where
  "target_names (TName x) = [x]"
| "target_names (TTuple ts) = concat (map target_names ts)"

fun binds :: "stmt \<Rightarrow> string list" where
  "binds (Import m x) = [x]"
| "binds (ImportFrom m xs) = map snd xs"
| "binds (Magic s) = []"
| "binds (Assign t e) = target_names t"
| "binds (AssignAttr obj a e) = []"
| "binds (AssignItem obj idx e) = []"
| "binds (AugAssign x op e) = [x]"
| "binds (AugAssignItem obj idx op e) = []"
| "binds (ExprS e) = []"
| "binds (IfS c yes no) = concat (map binds yes) @ concat (map binds no)"
| "binds (ForS t e body) = target_names t @ concat (map binds body)"

definition bound_names :: "cell list \<Rightarrow> string list" where
  "bound_names nb = concat (map binds (concat nb))"

section \<open>Reading a notebook\<close>

text \<open>
  The calls and stores of a notebook as they stand in its text, in the order in which one
  pass over the statements evaluates them (a loop body once, both branches of an \<open>if\<close>).
  A call is named by its callee, \<open>f\<close> or \<open>x.m\<close> (\<open>.m\<close> when the receiver is not a name); a
  store into an attribute is \<open>x.a=\<close>, a store into an item \<open>x[]=\<close>, an in-place update of
  an item \<open>x[]*=\<close>.
\<close>

fun callee_label :: "expr \<Rightarrow> string" where
  "callee_label (Name f) = f"
| "callee_label (Attr (Name x) m) = x @ ''.'' @ m"
| "callee_label (Attr e m) = ''.'' @ m"
| "callee_label e = ''?''"

fun expr_calls :: "expr \<Rightarrow> string list"
and exprs_calls :: "expr list \<Rightarrow> string list"
and items_calls :: "(string \<times> expr) list \<Rightarrow> string list"
and args_calls :: "arg list \<Rightarrow> string list"
and opt_calls :: "expr option \<Rightarrow> string list"
and indices_calls :: "index list \<Rightarrow> string list"
where
  "expr_calls (IntC i) = []"
| "expr_calls (FloatC f) = []"
| "expr_calls (StrC s) = []"
| "expr_calls (BoolC b) = []"
| "expr_calls NoneC = []"
| "expr_calls (Name x) = []"
| "expr_calls (Attr e a) = expr_calls e"
| "expr_calls (Call f as) = expr_calls f @ args_calls as @ [callee_label f]"
| "expr_calls (TupleE es) = exprs_calls es"
| "expr_calls (ListE es) = exprs_calls es"
| "expr_calls (DictE kes) = items_calls kes"
| "expr_calls (BinOp l op r) = expr_calls l @ expr_calls r"
| "expr_calls (Subscript e idx) = expr_calls e @ indices_calls idx"
| "exprs_calls [] = []"
| "exprs_calls (e # es) = expr_calls e @ exprs_calls es"
| "items_calls [] = []"
| "items_calls ((k, e) # kes) = expr_calls e @ items_calls kes"
| "args_calls [] = []"
| "args_calls (Pos e # as) = expr_calls e @ args_calls as"
| "args_calls (Kw k e # as) = expr_calls e @ args_calls as"
| "args_calls (KwSplat e # as) = expr_calls e @ args_calls as"
| "opt_calls None = []"
| "opt_calls (Some e) = expr_calls e"
| "indices_calls [] = []"
| "indices_calls (Idx e # is) = expr_calls e @ indices_calls is"
| "indices_calls (Slice lo hi # is) = opt_calls lo @ opt_calls hi @ indices_calls is"

fun stmt_stores :: "stmt \<Rightarrow> string list" where
  "stmt_stores (AssignAttr obj a e) = [callee_label (Attr obj a) @ ''='']"
| "stmt_stores (AssignItem obj idx e) = [callee_label obj @ ''[]='']"
| "stmt_stores (AugAssignItem obj idx op e) = [callee_label obj @ ''[]'' @ binop_name op @ ''='']"
| "stmt_stores (IfS c yes no) = concat (map stmt_stores yes) @ concat (map stmt_stores no)"
| "stmt_stores (ForS t e body) = concat (map stmt_stores body)"
| "stmt_stores s = []"

fun stmt_calls :: "stmt \<Rightarrow> string list" where
  "stmt_calls (Import m x) = []"
| "stmt_calls (ImportFrom m xs) = []"
| "stmt_calls (Magic s) = []"
| "stmt_calls (Assign t e) = expr_calls e"
| "stmt_calls (AssignAttr obj a e) =
     expr_calls e @ expr_calls obj @ stmt_stores (AssignAttr obj a e)"
| "stmt_calls (AssignItem obj idx e) =
     expr_calls e @ expr_calls obj @ indices_calls idx @ stmt_stores (AssignItem obj idx e)"
| "stmt_calls (AugAssign x op e) = expr_calls e"
| "stmt_calls (AugAssignItem obj idx op e) =
     expr_calls obj @ indices_calls idx @ expr_calls e @ stmt_stores (AugAssignItem obj idx op e)"
| "stmt_calls (ExprS e) = expr_calls e"
| "stmt_calls (IfS c yes no) = expr_calls c @ concat (map stmt_calls yes) @ concat (map stmt_calls no)"
| "stmt_calls (ForS t e body) = expr_calls e @ concat (map stmt_calls body)"

definition static_calls :: "cell list \<Rightarrow> string list" where
  "static_calls nb = concat (map stmt_calls (concat nb))"














section \<open>The weight scaling\<close>

text \<open>
  What the specification says of the scaled recurrent matrix \<open>S\<close>, for the loaded matrix
  \<open>w\<close>: four blocks multiplied by their base weights, every other entry as loaded.
\<close>

definition rec_scaled_as_specified ::
  "('a \<Rightarrow> pyfloat \<Rightarrow> 'a) \<Rightarrow> 'a list list \<Rightarrow> 'a list list \<Rightarrow> bool" where
  "rec_scaled_as_specified mul w S \<longleftrightarrow>
     length S = length w \<and>
     (\<forall>i < length w. length (S ! i) = length (w ! i) \<and>
        (\<forall>j < length (w ! i).
           S ! i ! j =
             (if i < 128 \<and> 128 \<le> j \<and> j < 640 then mul (w ! i ! j) (Dec 8 (-5))
              else if 128 \<le> i \<and> i < 640 \<and> 128 \<le> j \<and> j < 640 then mul (w ! i ! j) (Dec 8 (-5))
              else if 128 \<le> i \<and> i < 640 \<and> 640 \<le> j then mul (w ! i ! j) (Dec 8 (-5))
              else if 640 \<le> i \<and> 128 \<le> j \<and> j < 640 then mul (w ! i ! j) (Dec 1 (-4))
              else w ! i ! j)))"

lemma in_slice_simps:
  "i < n \<Longrightarrow> in_slice n (None, Some 128) i \<longleftrightarrow> i < 128"
  "i < n \<Longrightarrow> in_slice n (Some 128, Some 640) i \<longleftrightarrow> 128 \<le> i \<and> i < 640"
  "i < n \<Longrightarrow> in_slice n (Some 640, None) i \<longleftrightarrow> 640 \<le> i"
  by (auto simp: in_slice_def slice_lo_def slice_hi_def norm_bound_def)

lemma rec_scaling_blocks:
  "rec_scaled_as_specified mul w
     (imul_block mul (Some 640, None) (Some 128, Some 640) (Dec 1 (-4))
       (imul_block mul (Some 128, Some 640) (Some 640, None) (Dec 8 (-5))
         (imul_block mul (Some 128, Some 640) (Some 128, Some 640) (Dec 8 (-5))
           (imul_block mul (None, Some 128) (Some 128, Some 640) (Dec 8 (-5)) w))))"
  unfolding rec_scaled_as_specified_def
  by (simp add: length_imul_block length_nth_imul_block nth_imul_block in_slice_simps)

text \<open>
  C2. When the tutorial notebook has run through its reservoir cell,
  \<open>weights_res_in_scaled\<close> is the loaded input matrix with every entry multiplied by
  \<open>5e-4\<close>, and \<open>weights_rec_scaled\<close> is the loaded recurrent matrix with the four blocks
  multiplied by \<open>8e-5\<close>, \<open>8e-5\<close>, \<open>8e-5\<close> and \<open>1e-4\<close> and every other entry unchanged. The
  same holds when the demo notebook has run through its scaling cell, where the input
  matrix is the loaded expansion matrix with 640 columns of zeros appended.
\<close>

theorem weight_scaling_arithmetic:
  assumes "w_files W ''network/weights_res_in.npy'' = Some (NpyFile win)"
      and "w_files W ''network/weights_rec.npy'' = Some (NpyFile (A2 wrec))"
      and "w_files W ''network/kwargs_reservoir.npz'' = Some kw"
      and "w_files W ''network/weights_expand.npy'' = Some (NpyFile (A2 wexp))"
      and "length wexp = 4"
  shows "(\<exists>st S. run_all W (take 5 tutorial) init_state = (None, st) \<and>
            array_of st ''weights_res_in_scaled'' = Some (amul (w_mul W) win (Dec 5 (-4))) \<and>
            array_of st ''weights_rec_scaled'' = Some (A2 S) \<and>
            rec_scaled_as_specified (w_mul W) wrec S) \<and>
         (\<exists>st S. run_all W (take 6 demo) init_state = (None, st) \<and>
            array_of st ''weights_res_in_scaled'' =
              Some (amul (w_mul W) (A2 (map2 (@) wexp (zero_rows (w_zero W) 4 640))) (Dec 5 (-4))) \<and>
            array_of st ''weights_rec_scaled'' = Some (A2 S) \<and>
            rec_scaled_as_specified (w_mul W) wrec S)"
proof
  show "\<exists>st S. run_all W (take 5 tutorial) init_state = (None, st) \<and>
            array_of st ''weights_res_in_scaled'' = Some (amul (w_mul W) win (Dec 5 (-4))) \<and>
            array_of st ''weights_rec_scaled'' = Some (A2 S) \<and>
            rec_scaled_as_specified (w_mul W) wrec S"
    using assms(1-3)
    by (cases kw) (simp_all add: tutorial_def tutorial_cells run_simps array_of_def rec_scaling_blocks)
  show "\<exists>st S. run_all W (take 6 demo) init_state = (None, st) \<and>
            array_of st ''weights_res_in_scaled'' =
              Some (amul (w_mul W) (A2 (map2 (@) wexp (zero_rows (w_zero W) 4 640))) (Dec 5 (-4))) \<and>
            array_of st ''weights_rec_scaled'' = Some (A2 S) \<and>
            rec_scaled_as_specified (w_mul W) wrec S"
    using assms(2,4,5)
    by (simp add: demo_def demo_cells run_simps array_of_def rec_scaling_blocks)
qed

theorem weight_scaling_arithmetic_witness:
  "\<exists>st S. run_all block_world (take 5 tutorial) init_state = (None, st) \<and>
     array_of st ''weights_res_in_scaled'' = Some (A2 [[10, 15], [20, 25]]) \<and>
     array_of st ''weights_rec_scaled'' = Some (A2 S) \<and>
     S ! 0 ! 128 = 8 \<and> S ! 128 ! 128 = 8 \<and> S ! 128 ! 640 = 8 \<and> S ! 640 ! 128 = 1 \<and>
     S ! 0 ! 0 = 0 \<and> S ! 0 ! 640 = 0 \<and> S ! 640 ! 640 = 0 \<and> S ! 640 ! 0 = 0"
proof -
  have f: "w_files block_world ''network/weights_res_in.npy'' = Some (NpyFile (A2 [[1, 2], [3, 4]]))"
    "w_files block_world ''network/weights_rec.npy'' = Some (NpyFile (A2 (replicate 641 (replicate 641 0))))"
    "w_files block_world ''network/kwargs_reservoir.npz'' = Some OtherFile"
    "w_files block_world ''network/weights_expand.npy'' = Some (NpyFile (A2 [[1], [2], [3], [4]]))"
    "length [[1], [2], [3], [4::int]] = 4"
    by (simp_all add: block_world_def example_world_def example_files_def)
  from weight_scaling_arithmetic [OF f] obtain st S where
    r: "run_all block_world (take 5 tutorial) init_state = (None, st)"
    and a: "array_of st ''weights_res_in_scaled'' =
              Some (amul (w_mul block_world) (A2 [[1, 2], [3, 4]]) (Dec 5 (-4)))"
    and b: "array_of st ''weights_rec_scaled'' = Some (A2 S)"
    and s: "rec_scaled_as_specified (w_mul block_world) (replicate 641 (replicate 641 0)) S"
    by blast
  have m: "w_mul block_world = (\<lambda>x b. case b of Dec m e \<Rightarrow> (x + 1) * m)"
    by (simp add: block_world_def example_world_def)
  from s have "S ! 0 ! 128 = 8 \<and> S ! 128 ! 128 = 8 \<and> S ! 128 ! 640 = 8 \<and> S ! 640 ! 128 = 1 \<and>
     S ! 0 ! 0 = 0 \<and> S ! 0 ! 640 = 0 \<and> S ! 640 ! 640 = 0 \<and> S ! 640 ! 0 = 0"
    by (simp add: rec_scaled_as_specified_def m)
  with r a b show ?thesis
    by (auto simp: m)
qed

section \<open>The reservoir's weights\<close>

text \<open>
  C1, on the software reservoir. The tutorial notebook constructs \<open>RecIAFSpkInNest\<close> with
  the scaled matrices. The demo notebook computes the scaled matrices too, and then
  constructs \<open>RecIAFSpkInNest\<close> with the unscaled ones: \<open>weights_in\<close> is the loaded
  expansion matrix with its zero columns, \<open>weights_rec\<close> is the recurrent matrix as
  loaded.
\<close>

theorem reservoir_constructor_weights:
  assumes "w_files W ''network/weights_res_in.npy'' = Some (NpyFile win)"
      and "w_files W ''network/weights_rec.npy'' = Some (NpyFile (A2 wrec))"
      and "w_files W ''network/kwargs_reservoir.npz'' = Some OtherFile"
      and "w_files W ''network/weights_expand.npy'' = Some (NpyFile (A2 wexp))"
      and "length wexp = 4"
  shows "(\<exists>st S kws. run_all W (take 5 tutorial) init_state = (None, st) \<and>
            calls_of ''rockpool.layers.RecIAFSpkInNest'' (trace st) =
              [([], [(''weights_in'', VArr (amul (w_mul W) win (Dec 5 (-4)))),
                     (''weights_rec'', VArr (A2 S)),
                     (''name'', VStr ''reservoir''),
                     (''**'', kws)])] \<and>
            rec_scaled_as_specified (w_mul W) wrec S) \<and>
         (\<exists>st kws. run_all W (take 9 demo) init_state = (None, st) \<and>
            calls_of ''rockpool.layers.RecIAFSpkInNest'' (trace st) =
              [([], [(''weights_in'', VArr (A2 (map2 (@) wexp (zero_rows (w_zero W) 4 640)))),
                     (''weights_rec'', VArr (A2 wrec)),
                     (''name'', VStr ''reservoir''),
                     (''**'', kws)])] \<and>
            array_of st ''weights_res_in_scaled'' =
              Some (amul (w_mul W) (A2 (map2 (@) wexp (zero_rows (w_zero W) 4 640))) (Dec 5 (-4))))"
proof
  show "\<exists>st S kws. run_all W (take 5 tutorial) init_state = (None, st) \<and>
            calls_of ''rockpool.layers.RecIAFSpkInNest'' (trace st) =
              [([], [(''weights_in'', VArr (amul (w_mul W) win (Dec 5 (-4)))),
                     (''weights_rec'', VArr (A2 S)),
                     (''name'', VStr ''reservoir''),
                     (''**'', kws)])] \<and>
            rec_scaled_as_specified (w_mul W) wrec S"
    using assms(1-3)
    by (simp add: tutorial_def tutorial_cells run_simps trace_simps rec_scaling_blocks)
  show "\<exists>st kws. run_all W (take 9 demo) init_state = (None, st) \<and>
            calls_of ''rockpool.layers.RecIAFSpkInNest'' (trace st) =
              [([], [(''weights_in'', VArr (A2 (map2 (@) wexp (zero_rows (w_zero W) 4 640)))),
                     (''weights_rec'', VArr (A2 wrec)),
                     (''name'', VStr ''reservoir''),
                     (''**'', kws)])] \<and>
            array_of st ''weights_res_in_scaled'' =
              Some (amul (w_mul W) (A2 (map2 (@) wexp (zero_rows (w_zero W) 4 640))) (Dec 5 (-4)))"
    using assms(2-5)
    by (simp add: demo_def demo_cells run_simps trace_simps array_of_def)
qed

lemma example_world_files:
  "w_files example_world ''network/weights_res_in.npy'' = Some (NpyFile (A2 [[1, 2], [3, 4]]))"
  "w_files example_world ''network/weights_rec.npy'' = Some (NpyFile (A2 [[1, 2], [3, 4]]))"
  "w_files example_world ''network/kwargs_reservoir.npz'' = Some OtherFile"
  "w_files example_world ''network/weights_expand.npy'' = Some (NpyFile (A2 [[1], [2], [3], [4]]))"
  "length [[1], [2], [3], [4::int]] = 4"
  by (simp_all add: example_world_def example_files_def)

theorem reservoir_constructor_weights_witness:
  "\<exists>st kws. run_all example_world (take 9 demo) init_state = (None, st) \<and>
     calls_of ''rockpool.layers.RecIAFSpkInNest'' (trace st) =
       [([], [(''weights_in'', VArr (A2 (map2 (@) [[1], [2], [3], [4]] (zero_rows 0 4 640)))),
              (''weights_rec'', VArr (A2 [[1, 2], [3, 4]])),
              (''name'', VStr ''reservoir''),
              (''**'', kws)])] \<and>
     array_of st ''weights_res_in_scaled'' =
       Some (A2 (map (map (\<lambda>x. (x + 1) * 5)) (map2 (@) [[1], [2], [3], [4]] (zero_rows 0 4 640))))"
proof -
  have m: "w_mul example_world = (\<lambda>x b. case b of Dec m e \<Rightarrow> (x + 1) * m)"
    and z: "w_zero example_world = 0"
    by (simp_all add: example_world_def)
  from reservoir_constructor_weights [OF example_world_files]
  show ?thesis
    unfolding m z by simp
qed

section \<open>The demo notebook stops at a NameError\<close>

text \<open>
  C4. No statement of the demo notebook binds \<open>size_full\<close>, \<open>size_in\<close> or \<open>size_inhib\<close>.
  With the files it loads in place, a run from top to bottom stops at the readout cell
  with \<open>NameError: size_full\<close>, and no \<open>evolve\<close> has been called. Run cell by cell, the
  readout cell, the cell of \<open>sw_net\<close>, the neuron arrangement, the hardware readout, the
  cell of \<open>hw_net\<close> and every cell that uses them raise a NameError (the list gives what
  each of the 27 cells raises), \<open>evolve\<close> is never called, and \<open>readout\<close>, \<open>sw_net\<close>,
  \<open>readout_hw\<close> and \<open>hw_net\<close> are never bound.
\<close>

theorem demo_raises_name_error:
  assumes "w_files W ''network/weights_rec.npy'' = Some (NpyFile (A2 wrec))"
      and "w_files W ''network/kwargs_reservoir.npz'' = Some OtherFile"
      and "w_files W ''network/weights_expand.npy'' = Some (NpyFile (A2 wexp))"
      and "length wexp = 4"
      and "w_files W ''network/readout_weights.npy'' = Some (NpyFile rw)"
      and "w_files W ''network/readout_weights_hw.py'' = Some (NpyFile rwh)"
  shows "''size_full'' \<notin> set (bound_names demo) \<and>
         ''size_in'' \<notin> set (bound_names demo) \<and>
         ''size_inhib'' \<notin> set (bound_names demo) \<and>
         (\<exists>st. run_all W demo init_state = (Some (NameError ''size_full''), st) \<and>
               filter (is_method_call ''evolve'') (trace st) = []) \<and>
         (\<exists>st. run_each W demo init_state =
            ([None, None, None, None, None, None, None, None, None,
              Some (NameError ''size_full''), Some (NameError ''readout''), None, None, None,
              Some (NameError ''readout''), Some (NameError ''sw_net''),
              Some (NameError ''TSContinuous''), None,
              Some (NameError ''size_in''), Some (NameError ''neuron_ids''),
              Some (NameError ''neuron_ids''), Some (NameError ''size_full''),
              Some (NameError ''sw_net''), None,
              Some (NameError ''readout_hw''), Some (NameError ''hw_net''),
              Some (NameError ''TSContinuous'')], st) \<and>
            filter (is_method_call ''evolve'') (trace st) = [] \<and>
            map_of (env st) ''readout'' = None \<and> map_of (env st) ''sw_net'' = None \<and>
            map_of (env st) ''readout_hw'' = None \<and> map_of (env st) ''hw_net'' = None)"
proof (intro conjI)
  show "''size_full'' \<notin> set (bound_names demo)"
    by (simp add: bound_names_def demo_def demo_cells)
  show "''size_in'' \<notin> set (bound_names demo)"
    by (simp add: bound_names_def demo_def demo_cells)
  show "''size_inhib'' \<notin> set (bound_names demo)"
    by (simp add: bound_names_def demo_def demo_cells)
  show "\<exists>st. run_all W demo init_state = (Some (NameError ''size_full''), st) \<and>
          filter (is_method_call ''evolve'') (trace st) = []"
    using assms(1-4)
    by (simp add: demo_def demo_cells run_simps trace_simps)
  show "\<exists>st. run_each W demo init_state =
            ([None, None, None, None, None, None, None, None, None,
              Some (NameError ''size_full''), Some (NameError ''readout''), None, None, None,
              Some (NameError ''readout''), Some (NameError ''sw_net''),
              Some (NameError ''TSContinuous''), None,
              Some (NameError ''size_in''), Some (NameError ''neuron_ids''),
              Some (NameError ''neuron_ids''), Some (NameError ''size_full''),
              Some (NameError ''sw_net''), None,
              Some (NameError ''readout_hw''), Some (NameError ''hw_net''),
              Some (NameError ''TSContinuous'')], st) \<and>
            filter (is_method_call ''evolve'') (trace st) = [] \<and>
            map_of (env st) ''readout'' = None \<and> map_of (env st) ''sw_net'' = None \<and>
            map_of (env st) ''readout_hw'' = None \<and> map_of (env st) ''hw_net'' = None"
    using assms
    by (simp add: demo_def demo_cells run_simps trace_simps)
qed

lemma example_world_demo_files:
  "w_files example_world ''network/weights_rec.npy'' = Some (NpyFile (A2 [[1, 2], [3, 4]]))"
  "w_files example_world ''network/kwargs_reservoir.npz'' = Some OtherFile"
  "w_files example_world ''network/weights_expand.npy'' = Some (NpyFile (A2 [[1], [2], [3], [4]]))"
  "length [[1], [2], [3], [4::int]] = 4"
  "w_files example_world ''network/readout_weights.npy'' = Some (NpyFile (A2 [[1, 2, 3, 4], [5, 6, 7, 8]]))"
  "w_files example_world ''network/readout_weights_hw.py'' = Some (NpyFile (A2 [[1, 2, 3, 4, 5], [6, 7, 8, 9, 10]]))"
  by (simp_all add: example_world_def example_files_def)

theorem demo_raises_name_error_witness:
  "(\<exists>st. run_all example_world demo init_state = (Some (NameError ''size_full''), st) \<and>
         filter (is_method_call ''evolve'') (trace st) = []) \<and>
   (\<exists>st. fst (run_each example_world demo init_state) ! 9 = Some (NameError ''size_full'') \<and>
         fst (run_each example_world demo init_state) ! 10 = Some (NameError ''readout'') \<and>
         fst (run_each example_world demo init_state) ! 18 = Some (NameError ''size_in'') \<and>
         run_each example_world demo init_state = (fst (run_each example_world demo init_state), st) \<and>
         filter (is_method_call ''evolve'') (trace st) = [])"
  using demo_raises_name_error [OF example_world_demo_files]
  by auto

section \<open>The software inference of the tutorial notebook\<close>



section \<open>The reservoir stays as constructed\<close>



section \<open>No training, only loading\<close>



section \<open>The order of the orchestration\<close>




section \<open>What the statements do\<close>

text \<open>
  The kinds of statement that the specification names (configuration constants, file
  I/O, weight scaling, plotting), and the others that the notebooks have: imports and
  IPython magics, control flow, and uses of a library. A statement is of one of these
  kinds only when every call and every store that it makes is among those listed below,
  which are the ones of the two notebooks; a statement that makes any other call or
  store (a call of \<open>train_rr\<close> or of \<open>np.save\<close>, a store into the reservoir) is of the
  kind \<open>Other\<close>.
\<close>

datatype category =
    Import_or_magic
  | Configuration
  | File_io
  | Weight_scaling
  | Plotting
  | Library_use
  | Control_flow
  | Other

text \<open>A constant expression: literals, names, arithmetic on them, displays of them.\<close>

fun constant_expr :: "expr \<Rightarrow> bool"
and constant_exprs :: "expr list \<Rightarrow> bool"
and constant_items :: "(string \<times> expr) list \<Rightarrow> bool"
where
  "constant_expr (IntC i) = True"
| "constant_expr (FloatC f) = True"
| "constant_expr (StrC s) = True"
| "constant_expr (BoolC b) = True"
| "constant_expr NoneC = True"
| "constant_expr (Name x) = True"
| "constant_expr (BinOp l op r) = (constant_expr l \<and> constant_expr r)"
| "constant_expr (TupleE es) = constant_exprs es"
| "constant_expr (ListE es) = constant_exprs es"
| "constant_expr (DictE kes) = constant_items kes"
| "constant_expr (Attr e a) = False"
| "constant_expr (Call f as) = False"
| "constant_expr (Subscript e idx) = False"
| "constant_exprs [] = True"
| "constant_exprs (e # es) = (constant_expr e \<and> constant_exprs es)"
| "constant_items [] = True"
| "constant_items ((k, e) # kes) = (constant_expr e \<and> constant_items kes)"

text \<open>\<open>np.load(...)\<close>, a slice of it, or \<open>dict\<close> of it.\<close>

fun loads_file :: "expr \<Rightarrow> bool" where
  "loads_file (Call (Attr (Name m) f) as) = (m = ''np'' \<and> f = ''load'')"
| "loads_file (Call (Name f) [Pos e]) = (f = ''dict'' \<and> loads_file e)"
| "loads_file (Subscript e idx) = loads_file e"
| "loads_file e = False"

text \<open>The modules that the notebooks import, and their magics.\<close>

definition imported_modules :: "string list" where
  "imported_modules =
     [''importlib'', ''warnings'', ''numpy'', ''matplotlib'', ''rockpool'', ''rockpool.layers'',
      ''rockpool.devices'', ''rockpool.weights'', ''scripts.plot_example_beats'',
      ''scripts.dataloader'']"

definition magics :: "string list" where
  "magics = [''!pip install ipympl'', ''%matplotlib widget'']"

text \<open>
  The calls and stores of the notebooks, under the names that \<open>static_calls\<close> gives them.
  File loading is \<open>np.load\<close>. Weight scaling works on the copies of the two loaded
  matrices, and updates blocks of the recurrent copy in place.
\<close>

definition loading_calls :: "string list" where
  "loading_calls = [''np.load'']"

definition scaling_calls :: "string list" where
  "scaling_calls = [''weights_res_in.copy'', ''weights_rec.copy'', ''weights_rec_scaled[]*='']"

text \<open>Plotting: the repository's \<open>plot_examples\<close>, \<open>matplotlib.pyplot\<close>, axes and \<open>plot\<close> methods.\<close>

definition plotting_calls :: "string list" where
  "plotting_calls =
     [''plot_examples'', ''plt.subplots'', ''plt.subplots_adjust'', ''plt.imshow'', ''plt.title'',
      ''plt.xlabel'', ''plt.ylabel'', ''axes.flatten'', ''ax.set_title'', ''ax.set_xlabel'',
      ''.set_visible'', ''.plot'', ''any_target.plot'', ''any_target_hw.plot'']"

text \<open>
  The uses of rockpool and of the repository's data loader: the constructors of the data
  loader, the layers, the networks, the hardware controller and a time series, the
  arrangement of neurons, a batch of data, inference and reset of the two networks, the
  biases and the hot neurons of the chip, and \<open>clip\<close> and \<open>copy\<close> of time series.
\<close>

definition library_calls :: "string list" where
  "library_calls =
     [''ECGDataLoader'', ''FFUpDown'', ''RecIAFSpkInNest'', ''RecDynapSE'', ''FFExpSyn'',
      ''Network'', ''DynapseControlExtd'', ''TSContinuous'', ''rectangular_neuron_arrangement'',
      ''data_loader.get_single_batch'', ''sw_net.evolve'', ''sw_net.reset_all'',
      ''hw_net.evolve'', ''hw_net.reset_all'', ''controller.load_biases'',
      ''controller.silence_hot_neurons'', ''.copy'', ''.clip'', ''output.clip'',
      ''output_hw.clip'', ''target.clip'', ''target_hw.clip'', ''any_target_hw.clip'']"

text \<open>The helpers: numpy's constructors and reductions, Python's builtins and standard library.\<close>

definition helper_calls :: "string list" where
  "helper_calls =
     [''np.zeros'', ''np.hstack'', ''np.any'', ''dict'', ''list'', ''enumerate'', ''zip'', ''abs'',
      ''print'', ''warnings.filterwarnings'', ''.find_spec'']"

text \<open>The stores into objects: the parameters of the two readouts, and the dictionary of results.\<close>

definition readout_stores :: "string list" where
  "readout_stores =
     [''readout.weights='', ''readout.bias='', ''readout_hw.weights='', ''readout_hw.bias='']"

definition result_stores :: "string list" where
  "result_stores = [''net_data_hw[]='']"

definition known :: "string \<Rightarrow> bool" where
  "known l \<longleftrightarrow>
     l \<in> set (loading_calls @ scaling_calls @ plotting_calls @ library_calls @ helper_calls @
              readout_stores @ result_stores)"

text \<open>
  The kind of a statement from the calls and stores it makes: \<open>Other\<close> when one of them is
  not known; else plotting, weight scaling or file loading when it makes such a call;
  else a use of a library (which may be only a read of an attribute or of an item).
\<close>

definition effect_category :: "string list \<Rightarrow> category" where
  "effect_category ls =
     (if \<not> list_all known ls then Other
      else if list_ex (\<lambda>l. l \<in> set plotting_calls) ls then Plotting
      else if list_ex (\<lambda>l. l \<in> set scaling_calls) ls then Weight_scaling
      else if list_ex (\<lambda>l. l \<in> set loading_calls) ls then File_io
      else Library_use)"

text \<open>
  An assignment of a constant expression is configuration. A store into an attribute is
  file I/O when it stores what \<open>np.load\<close> gives into a readout, and \<open>Other\<close> else. An \<open>if\<close> or
  a \<open>for\<close> is control flow when the calls of its header are known.
\<close>

fun category_of :: "stmt \<Rightarrow> category" where
  "category_of (Import m x) = (if m \<in> set imported_modules then Import_or_magic else Other)"
| "category_of (ImportFrom m xs) = (if m \<in> set imported_modules then Import_or_magic else Other)"
| "category_of (Magic s) = (if s \<in> set magics then Import_or_magic else Other)"
| "category_of (Assign t e) =
     (if constant_expr e then Configuration else effect_category (stmt_calls (Assign t e)))"
| "category_of (AssignAttr obj a e) =
     (if loads_file e \<and> list_all known (stmt_calls (AssignAttr obj a e)) then File_io else Other)"
| "category_of (AssignItem obj idx e) = effect_category (stmt_calls (AssignItem obj idx e))"
| "category_of (AugAssign x op e) = effect_category (stmt_calls (AugAssign x op e))"
| "category_of (AugAssignItem obj idx op e) =
     effect_category (stmt_calls (AugAssignItem obj idx op e))"
| "category_of (ExprS e) = effect_category (stmt_calls (ExprS e))"
| "category_of (IfS c yes no) = (if list_all known (expr_calls c) then Control_flow else Other)"
| "category_of (ForS t e body) = (if list_all known (expr_calls e) then Control_flow else Other)"

text \<open>Every statement of a notebook, those inside a loop or a branch too.\<close>

fun all_stmts :: "stmt \<Rightarrow> stmt list" where
  "all_stmts (IfS c yes no) = IfS c yes no # concat (map all_stmts yes) @ concat (map all_stmts no)"
| "all_stmts (ForS t e body) = ForS t e body # concat (map all_stmts body)"
| "all_stmts s = [s]"

definition nb_stmts :: "cell list \<Rightarrow> stmt list" where
  "nb_stmts nb = concat (map all_stmts (concat nb))"

text \<open>The modules a statement imports and the magics it runs.\<close>

fun stmt_imports :: "stmt \<Rightarrow> string list" where
  "stmt_imports (Import m x) = [m]"
| "stmt_imports (ImportFrom m xs) = [m]"
| "stmt_imports s = []"

fun stmt_magics :: "stmt \<Rightarrow> string list" where
  "stmt_magics (Magic s) = [s]"
| "stmt_magics s = []"

text \<open>
  The statements that stand in comments in the training cells, were they code, would be
  of the kind \<open>Other\<close>: the import of \<open>time\<close>, the call of \<open>readout.train_rr\<close> and the call of
  \<open>np.save\<close>. So would any store into an attribute of the reservoir.
\<close>

lemma commented_statements_are_other:
  "category_of (Import ''time'' ''time'') = Other"
  "category_of
     (ExprS (MCall (Name ''readout'') ''train_rr''
        [Pos (Attr (Name ''batch'') ''target''),
         Pos (Subscript (Name ''output'') [Idx (StrC ''reservoir'')]),
         Kw ''is_first'' (Attr (Name ''batch'') ''is_first''),
         Kw ''is_last'' (Attr (Name ''batch'') ''is_last''),
         Kw ''regularize'' (Name ''regularize'')])) = Other"
  "category_of
     (ExprS (MCall (Name ''np'') ''save''
        [Pos (StrC ''network/readout_weights.npy''), Pos (Attr (Name ''readout'') ''weights'')])) = Other"
  by (simp_all add: effect_category_def known_def imported_modules_def loading_calls_def
        scaling_calls_def plotting_calls_def library_calls_def helper_calls_def
        readout_stores_def result_stores_def)

lemma reservoir_store_is_other:
  "category_of (AssignAttr (Name ''reservoir'') a e) = Other"
  by (simp add: known_def loading_calls_def scaling_calls_def plotting_calls_def
        library_calls_def helper_calls_def readout_stores_def result_stores_def)

text \<open>
  C3 as it is stated fails: the tutorial notebook silences the hot neurons of the chip
  through the hardware controller, which is none of the four kinds; a run of the notebook
  through that cell makes the call.
\<close>

theorem only_four_kinds_counterexample:
  "Assign (TName ''hot_neurons'')
     (MCall (Name ''controller'') ''silence_hot_neurons''
        [Pos (Name ''neuron_ids''), Pos (Name ''silence_hot_neurons_dur'')])
     \<in> set (nb_stmts tutorial) \<and>
   category_of (Assign (TName ''hot_neurons'')
     (MCall (Name ''controller'') ''silence_hot_neurons''
        [Pos (Name ''neuron_ids''), Pos (Name ''silence_hot_neurons_dur'')]))
     \<notin> set [Configuration, File_io, Weight_scaling, Plotting] \<and>
   filter (is_method_call ''silence_hot_neurons'')
     (trace (snd (run_all example_world (take 15 tutorial) init_state))) \<noteq> []"
proof (intro conjI)
  show "Assign (TName ''hot_neurons'')
     (MCall (Name ''controller'') ''silence_hot_neurons''
        [Pos (Name ''neuron_ids''), Pos (Name ''silence_hot_neurons_dur'')])
     \<in> set (nb_stmts tutorial)"
    by (simp add: nb_stmts_def tutorial_def tut_controller_def)
  show "category_of (Assign (TName ''hot_neurons'')
     (MCall (Name ''controller'') ''silence_hot_neurons''
        [Pos (Name ''neuron_ids''), Pos (Name ''silence_hot_neurons_dur'')]))
     \<notin> set [Configuration, File_io, Weight_scaling, Plotting]"
    by code_simp
  show "filter (is_method_call ''silence_hot_neurons'')
     (trace (snd (run_all example_world (take 15 tutorial) init_state))) \<noteq> []"
    by code_simp
qed

text \<open>
  C3, amended. Every statement of the two notebooks is an import or a magic, a
  configuration constant, file I/O, weight scaling, plotting, control flow, or a use of
  a library, and every one of these kinds occurs in both; none is of the kind \<open>Other\<close>.
  The calls and stores that the statements of the two notebooks make are exactly the
  listed ones, the modules they import are exactly the listed modules, and their magics
  the listed magics.
\<close>

theorem statement_kinds:
  "set (map category_of (nb_stmts tutorial)) =
     set [Import_or_magic, Configuration, File_io, Weight_scaling, Plotting, Control_flow, Library_use] \<and>
   set (map category_of (nb_stmts demo)) =
     set [Import_or_magic, Configuration, File_io, Weight_scaling, Plotting, Control_flow, Library_use] \<and>
   set (static_calls tutorial @ static_calls demo) =
     set (loading_calls @ scaling_calls @ plotting_calls @ library_calls @ helper_calls @
          readout_stores @ result_stores) \<and>
   set (concat (map stmt_imports (nb_stmts tutorial @ nb_stmts demo))) = set imported_modules \<and>
   set (concat (map stmt_magics (nb_stmts tutorial @ nb_stmts demo))) = set magics"
proof (intro conjI)
  show "set (map category_of (nb_stmts tutorial)) =
     set [Import_or_magic, Configuration, File_io, Weight_scaling, Plotting, Control_flow, Library_use]"
    by code_simp
  show "set (map category_of (nb_stmts demo)) =
     set [Import_or_magic, Configuration, File_io, Weight_scaling, Plotting, Control_flow, Library_use]"
    by code_simp
  show "set (static_calls tutorial @ static_calls demo) =
     set (loading_calls @ scaling_calls @ plotting_calls @ library_calls @ helper_calls @
          readout_stores @ result_stores)"
    by code_simp
  show "set (concat (map stmt_imports (nb_stmts tutorial @ nb_stmts demo))) = set imported_modules"
    by code_simp
  show "set (concat (map stmt_magics (nb_stmts tutorial @ nb_stmts demo))) = set magics"
    by code_simp
qed

section \<open>The hardware readout\<close>

text \<open>The right-hand sides of the assignments to the name \<open>x\<close> at the top level of the cells.\<close>

fun assigned :: "string \<Rightarrow> stmt \<Rightarrow> expr list" where
  "assigned x (Assign (TName y) e) = (if x = y then [e] else [])"
| "assigned x s = []"

definition assigned_exprs :: "string \<Rightarrow> cell list \<Rightarrow> expr list" where
  "assigned_exprs x nb = concat (map (assigned x) (concat nb))"

lemma take_slice_simps:
  "take_slice (None, None) = (\<lambda>xs. xs)"
  "take_slice (None, Some 4) = take 4"
  by (rule ext, simp add: take_slice_def slice_lo_def slice_hi_def norm_bound_def min_def)+

text \<open>
  C9. The tutorial notebook assigns \<open>NUM_ANOM_CLASSES\<close> once, the constant 4. Its four cells
  from the construction of \<open>readout_hw\<close> to the loading of its parameters, run in a state
  where the names they read are bound as the cells before bind them, call \<open>np.zeros\<close> with
  the shape (\<open>reservoir_hw.size\<close>, 4), construct \<open>FFExpSyn\<close> with the result as weights, and
  store into that readout the first 4 columns of the array in
  \<open>network/readout_weights_hw.npy\<close> and the first 4 entries of the array in
  \<open>network/readout_bias_hw.npy\<close>: exactly 4 columns and 4 entries when the stored arrays
  have at least that many.
\<close>

theorem hardware_readout_channels:
  assumes "map_of (env st) ''np'' = Some (VGlobal ''numpy'')"
      and "map_of (env st) ''FFExpSyn'' = Some (VGlobal ''rockpool.layers.FFExpSyn'')"
      and "map_of (env st) ''Network'' = Some (VGlobal ''rockpool.Network'')"
      and "map_of (env st) ''reservoir_hw'' = Some (VObj r)"
      and "map_of (env st) ''spike_enc'' = Some (VObj e)"
      and "map_of (env st) ''sw_net'' = Some (VObj n)"
      and "map_of (env st) ''NUM_ANOM_CLASSES'' = Some (VInt 4)"
      and "map_of (env st) ''DT_ECG'' = Some (VFloat dt)"
      and "w_files W ''network/readout_weights_hw.npy'' = Some (NpyFile (A2 m))"
      and "w_files W ''network/readout_bias_hw.npy'' = Some (NpyFile (A1 b))"
      and "list_all (\<lambda>row. 4 \<le> length row) m"
      and "4 \<le> length b"
  shows "assigned_exprs ''NUM_ANOM_CLASSES'' tutorial = [IntC 4] \<and>
         (\<exists>st'. run_all W (take 4 (drop 16 tutorial)) st = (None, st') \<and>
            trace st' = trace st @
              [ECall (VAttr (VGlobal ''numpy'') ''zeros'') [VTuple [VAttr (VObj r) ''size'', VInt 4]] [],
               ECall (VGlobal ''rockpool.layers.FFExpSyn'') []
                 [(''weights'', VObj (count st)), (''bias'', VInt 0), (''dt'', VFloat dt),
                  (''tau_syn'', VFloat (Dec 175 (-3))), (''name'', VStr ''readout'')],
               ECall (VAttr (VObj n) ''reset_all'') [] [],
               ECall (VGlobal ''rockpool.Network'') [VObj e, VObj r, VObj (count st + 1)]
                 [(''dt'', VFloat dt)],
               ECall (VAttr (VGlobal ''numpy'') ''load'') [VStr ''network/readout_weights_hw.npy''] [],
               ESetAttr (VObj (count st + 1)) ''weights'' (VArr (A2 (map (take 4) m))),
               ECall (VAttr (VGlobal ''numpy'') ''load'') [VStr ''network/readout_bias_hw.npy''] [],
               ESetAttr (VObj (count st + 1)) ''bias'' (VArr (A1 (take 4 b)))] \<and>
            map_of (env st') ''readout_hw'' = Some (VObj (count st + 1)) \<and>
            list_all (\<lambda>row. length row = 4) (map (take 4) m) \<and>
            length (take 4 b) = 4)"
proof
  show "assigned_exprs ''NUM_ANOM_CLASSES'' tutorial = [IntC 4]"
    by (simp add: assigned_exprs_def tutorial_def tutorial_cells)
  have "list_all (\<lambda>row. length row = 4) (map (take 4) m)"
    using assms(11) by (induction m) simp_all
  moreover have "length (take 4 b) = 4"
    using assms(12) by simp
  ultimately
  show "\<exists>st'. run_all W (take 4 (drop 16 tutorial)) st = (None, st') \<and>
            trace st' = trace st @
              [ECall (VAttr (VGlobal ''numpy'') ''zeros'') [VTuple [VAttr (VObj r) ''size'', VInt 4]] [],
               ECall (VGlobal ''rockpool.layers.FFExpSyn'') []
                 [(''weights'', VObj (count st)), (''bias'', VInt 0), (''dt'', VFloat dt),
                  (''tau_syn'', VFloat (Dec 175 (-3))), (''name'', VStr ''readout'')],
               ECall (VAttr (VObj n) ''reset_all'') [] [],
               ECall (VGlobal ''rockpool.Network'') [VObj e, VObj r, VObj (count st + 1)]
                 [(''dt'', VFloat dt)],
               ECall (VAttr (VGlobal ''numpy'') ''load'') [VStr ''network/readout_weights_hw.npy''] [],
               ESetAttr (VObj (count st + 1)) ''weights'' (VArr (A2 (map (take 4) m))),
               ECall (VAttr (VGlobal ''numpy'') ''load'') [VStr ''network/readout_bias_hw.npy''] [],
               ESetAttr (VObj (count st + 1)) ''bias'' (VArr (A1 (take 4 b)))] \<and>
            map_of (env st') ''readout_hw'' = Some (VObj (count st + 1)) \<and>
            list_all (\<lambda>row. length row = 4) (map (take 4) m) \<and>
            length (take 4 b) = 4"
    using assms(1-10)
    by (simp add: tutorial_def tutorial_cells run_simps take_slice_simps nth_append Let_def trace_def)
qed

text \<open>
  The state of the tutorial notebook before these cells, in the example world, binds the
  names so; there the stored weights have the 4 columns \<open>[1, 2, 3, 4]\<close> and \<open>[6, 7, 8, 9]\<close>
  of the 5 in the file.
\<close>

lemma example_state_before_readout_hw:
  "map (map_of (env (snd (run_all example_world (take 16 tutorial) init_state))))
     [''np'', ''FFExpSyn'', ''Network'', ''reservoir_hw'', ''spike_enc'', ''sw_net'',
      ''NUM_ANOM_CLASSES'', ''DT_ECG''] =
   [Some (VGlobal ''numpy''), Some (VGlobal ''rockpool.layers.FFExpSyn''),
    Some (VGlobal ''rockpool.Network''), Some (VObj 63), Some (VObj 11), Some (VObj 24),
    Some (VInt 4), Some (VFloat (Dec 2778 (-6)))] \<and>
   count (snd (run_all example_world (take 16 tutorial) init_state)) = 64 \<and>
   length (events (snd (run_all example_world (take 16 tutorial) init_state))) = 64"
  by code_simp

theorem hardware_readout_channels_witness:
  "\<exists>st'. run_all example_world (take 4 (drop 16 tutorial))
            (snd (run_all example_world (take 16 tutorial) init_state)) = (None, st') \<and>
     drop 69 (trace st') =
       [ESetAttr (VObj 65) ''weights'' (VArr (A2 [[1, 2, 3, 4], [6, 7, 8, 9]])),
        ECall (VAttr (VGlobal ''numpy'') ''load'') [VStr ''network/readout_bias_hw.npy''] [],
        ESetAttr (VObj 65) ''bias'' (VArr (A1 [1, 2, 3, 4]))] \<and>
     map_of (env st') ''readout_hw'' = Some (VObj 65)"
proof -
  let ?st = "snd (run_all example_world (take 16 tutorial) init_state)"
  have f: "w_files example_world ''network/readout_weights_hw.npy'' =
             Some (NpyFile (A2 [[1, 2, 3, 4, 5], [6, 7, 8, 9, 10]]))"
    "w_files example_world ''network/readout_bias_hw.npy'' = Some (NpyFile (A1 [1, 2, 3, 4, 5]))"
    "list_all (\<lambda>row. 4 \<le> length row) [[1, 2, 3, 4, 5], [6, 7, 8, 9, 10::int]]"
    "4 \<le> length [1, 2, 3, 4, 5::int]"
    by (simp_all add: example_world_def example_files_def)
  from example_state_before_readout_hw
  have e: "map_of (env ?st) ''np'' = Some (VGlobal ''numpy'')"
    "map_of (env ?st) ''FFExpSyn'' = Some (VGlobal ''rockpool.layers.FFExpSyn'')"
    "map_of (env ?st) ''Network'' = Some (VGlobal ''rockpool.Network'')"
    "map_of (env ?st) ''reservoir_hw'' = Some (VObj 63)"
    "map_of (env ?st) ''spike_enc'' = Some (VObj 11)"
    "map_of (env ?st) ''sw_net'' = Some (VObj 24)"
    "map_of (env ?st) ''NUM_ANOM_CLASSES'' = Some (VInt 4)"
    "map_of (env ?st) ''DT_ECG'' = Some (VFloat (Dec 2778 (-6)))"
    and c: "count ?st = 64" and l: "length (trace ?st) = 64"
    by (simp_all add: trace_def)
  from hardware_readout_channels [OF e f] obtain st' where
    "run_all example_world (take 4 (drop 16 tutorial)) ?st = (None, st')"
    "trace st' = trace ?st @
              [ECall (VAttr (VGlobal ''numpy'') ''zeros'') [VTuple [VAttr (VObj 63) ''size'', VInt 4]] [],
               ECall (VGlobal ''rockpool.layers.FFExpSyn'') []
                 [(''weights'', VObj (count ?st)), (''bias'', VInt 0), (''dt'', VFloat (Dec 2778 (-6))),
                  (''tau_syn'', VFloat (Dec 175 (-3))), (''name'', VStr ''readout'')],
               ECall (VAttr (VObj 24) ''reset_all'') [] [],
               ECall (VGlobal ''rockpool.Network'') [VObj 11, VObj 63, VObj (count ?st + 1)]
                 [(''dt'', VFloat (Dec 2778 (-6)))],
               ECall (VAttr (VGlobal ''numpy'') ''load'') [VStr ''network/readout_weights_hw.npy''] [],
               ESetAttr (VObj (count ?st + 1)) ''weights'' (VArr (A2 (map (take 4) [[1, 2, 3, 4, 5], [6, 7, 8, 9, 10]]))),
               ECall (VAttr (VGlobal ''numpy'') ''load'') [VStr ''network/readout_bias_hw.npy''] [],
               ESetAttr (VObj (count ?st + 1)) ''bias'' (VArr (A1 (take 4 [1, 2, 3, 4, 5])))]"
    "map_of (env st') ''readout_hw'' = Some (VObj (count ?st + 1))"
    by blast
  with c l show ?thesis
    by simp
qed

end
